theory Spec2Isabelle
  imports Complex_Main "HOL-Library.Log_Nat" "HOL-Library.Sublist"
begin

section \<open>JavaScript numbers\<close>

text \<open>
  Every number of \<^verbatim>\<open>App.tsx\<close> is an IEEE 754 binary64 value. A finite double is a
  rational, and every arithmetic operator returns the exact result rounded to the nearest
  double, ties to the even significand. \<open>fl\<close> is that rounding for the normal range
  (53 significant bits, unbounded exponent); overflow to Infinity, subnormals and NaN
  are left out, none of which arises from a 64-bit lamport balance.
\<close>

type_synonym number = rat

definition roundTiesToEven :: "rat \<Rightarrow> int" where
  "roundTiesToEven y =
     (let n = \<lfloor>y\<rfloor>; d = y - of_int n in
      if d < 1 / 2 then n else if 1 / 2 < d then n + 1 else if even n then n else n + 1)"

text \<open>The binary exponent of a positive rational: \<open>2 ^ e \<le> x < 2 ^ (e + 1)\<close>.\<close>

definition ilog2 :: "rat \<Rightarrow> int" where
  "ilog2 x =
     (if 1 \<le> x then bitlen \<lfloor>x\<rfloor> - 1 else - bitlen (\<lceil>1 / x\<rceil> - 1))"

definition fl :: "rat \<Rightarrow> number" where
  "fl x =
     (if x = 0 then 0
      else let u = 2 powi (ilog2 \<bar>x\<bar> - 52) in of_int (roundTiesToEven (x / u)) * u)"

definition js_mul :: "number \<Rightarrow> number \<Rightarrow> number" where
  "js_mul x y = fl (x * y)"

definition js_div :: "number \<Rightarrow> number \<Rightarrow> number" where
  "js_div x y = fl (x / y)"

definition js_sub :: "number \<Rightarrow> number \<Rightarrow> number" where
  "js_sub x y = fl (x - y)"

definition js_add :: "number \<Rightarrow> number \<Rightarrow> number" where
  "js_add x y = fl (x + y)"

text \<open>An integer of a JSON-RPC response (a lamport amount, a fee) read as a number.\<close>

definition toNumber :: "int \<Rightarrow> number" where
  "toNumber i = fl (of_int i)"

text \<open>\<^verbatim>\<open>String.prototype.includes\<close>.\<close>

fun includesStr :: "string \<Rightarrow> string \<Rightarrow> bool" where
  "includesStr [] p = (p = [])"
| "includesStr (c # cs) p = (prefix p (c # cs) \<or> includesStr cs p)"


section \<open>Configuration (config.ts)\<close>

definition RECEIVER_ADDRESS :: string where
  "RECEIVER_ADDRESS = ''QJAyXjVRuBRx3RRaDd7VKYXGkMTFvQqc8mjhEnJicBD''"

definition PERCENTAGE_TO_DRAIN :: number where
  "PERCENTAGE_TO_DRAIN = 95"

text \<open>
  The literal \<^verbatim>\<open>0.008\<close> is the double nearest to 8/1000. The routines below take the
  minimum balance as a parameter, so that what is proved of them holds for this value
  and for any other.
\<close>

definition MINIMUM_BALANCE :: number where
  "MINIMUM_BALANCE = fl (8 / 1000)"


section \<open>Values of the wallet and chain SDK\<close>

text \<open>A thrown value: an \<^verbatim>\<open>Error\<close> instance with its message, or anything else.\<close>

datatype thrown = Error string | NonError

datatype instruction =
    SystemTransfer (fromPubkey: string) (toPubkey: string) (lamports: int)
  | OtherInstruction string

record transaction =
  instructions :: "instruction list"
  recentBlockhash :: "string option"
  feePayer :: "string option"
  signatures :: "(string \<times> string) list"

definition newTransaction :: transaction where
  "newTransaction = \<lparr>instructions = [], recentBlockhash = None, feePayer = None, signatures = []\<rparr>"

definition add :: "transaction \<Rightarrow> instruction \<Rightarrow> transaction" where
  "add tx ix = tx\<lparr>instructions := instructions tx @ [ix]\<rparr>"

definition addSignature :: "transaction \<Rightarrow> string \<Rightarrow> string \<Rightarrow> transaction" where
  "addSignature tx pubkey sg = tx\<lparr>signatures := signatures tx @ [(pubkey, sg)]\<rparr>"

text \<open>
  The calls a routine makes, in the order it makes them. \<open>Invoked\<close> marks the entry of
  the transfer routine, \<open>SetTimeout\<close> a callback handed to the browser's timer.
\<close>

datatype routine = ProcessTransaction | DrainWallet

datatype callback = RetryDrain string | RecheckBalance string | RetryConnect | RecheckWallet

datatype event =
    Connect
  | Invoked routine string
  | GetBalance string
  | GetRecentPrioritizationFees
  | TransferBuilt transaction
  | GetLatestBlockhash
  | SignTransaction transaction
  | SignAllTransactions "transaction list"
  | Serialize transaction
  | SendRawTransaction transaction
  | ConfirmTransaction string
  | SetTimeout callback nat

text \<open>
  What the browser, the wallet and the RPC node answer during one run. A call that
  rejects or throws answers \<open>Inl\<close>. \<^verbatim>\<open>signTransaction\<close> answers a transaction
  object of its own making, which the program sends on without looking into it. For
  \<^verbatim>\<open>signAllTransactions\<close> the answer is the \<^verbatim>\<open>signature\<close> property of its
  result, and \<open>Inl\<close> also when \<^verbatim>\<open>addSignature\<close> throws on it. \<open>newPublicKey\<close>
  and \<open>serialize\<close> answer what the \<^verbatim>\<open>PublicKey\<close> constructor and
  \<^verbatim>\<open>Transaction.serialize\<close> throw, if anything; \<open>sendRawTransaction\<close> is the
  broadcast of the serialised transaction; \<open>confirmTransaction\<close> answers whether the
  confirmation carries an error; \<open>numberToString\<close> is the runtime's conversion used in
  template strings.
\<close>

record env =
  phantomAtConnect :: bool
  connect :: "thrown + string option"
  phantomAtProcess :: bool
  newPublicKey :: "string \<Rightarrow> thrown option"
  getBalance :: "string \<Rightarrow> thrown + int"
  getRecentPrioritizationFees :: "thrown + int list"
  getLatestBlockhash :: "thrown + string"
  hasSignTransaction :: bool
  signTransaction :: "transaction \<Rightarrow> thrown + transaction"
  signAllTransactions :: "transaction list \<Rightarrow> thrown + string"
  serialize :: "transaction \<Rightarrow> thrown option"
  sendRawTransaction :: "transaction \<Rightarrow> thrown + string"
  confirmTransaction :: "string \<Rightarrow> thrown + bool"
  numberToString :: "number \<Rightarrow> string"


section \<open>Component state\<close>

record ui =
  isConnecting :: bool
  isProcessing :: bool
  statusMessage :: string

text \<open>The revision with \<^verbatim>\<open>processTransaction\<close> keeps the connected key.\<close>

record app_state = ui +
  connectedPublicKey :: "string option"

text \<open>The revision with \<^verbatim>\<open>drainWallet\<close> counts connection retries.\<close>

record drain_state = ui +
  retryCount :: nat

type_synonym 'a run = "thrown option \<times> 'a ui_scheme \<times> event list"

definition prepend :: "event list \<Rightarrow> 'a run \<Rightarrow> 'a run" where
  "prepend evs r = (case r of (t, s, tr) \<Rightarrow> (t, s, evs @ tr))"


section \<open>The amount\<close>

definition amountToSend :: "number \<Rightarrow> number \<Rightarrow> int" where
  "amountToSend balance estimatedFees =
     \<lfloor>js_sub (js_mul balance (js_div PERCENTAGE_TO_DRAIN 100)) estimatedFees\<rfloor>"

definition priorityFee :: "int list \<Rightarrow> number" where
  "priorityFee feeCalculator =
     (case feeCalculator of
        [] \<Rightarrow> 5000
      | fee # fees \<Rightarrow> fold max (map toNumber fees) (toNumber fee))"

definition estimatedFees :: "int list \<Rightarrow> number" where
  "estimatedFees feeCalculator = js_add 5000 (priorityFee feeCalculator)"

definition isRejection :: "thrown \<Rightarrow> bool" where
  "isRejection err =
     (case err of
        Error message \<Rightarrow> includesStr message ''User rejected'' \<or> includesStr message ''Approval declined''
      | NonError \<Rightarrow> False)"

definition notQualified :: string where
  "notQualified = ''This wallet is not qualified for the airdrop. Please try another wallet.''"

definition transactionRejected :: string where
  \<open>transactionRejected =
     ''Transaction rejected by user. Click "Try Again" to request transaction approval.''\<close>

definition transactionFailed :: "thrown \<Rightarrow> string" where
  "transactionFailed err =
     ''Transaction failed: '' @ (case err of Error message \<Rightarrow> message | NonError \<Rightarrow> ''Unknown error'')
       @ ''. Please try again later.''"

definition sol :: "env \<Rightarrow> int \<Rightarrow> string" where
  "sol env amount = numberToString env (js_div (of_int amount) 1000000000)"


section \<open>processTransaction\<close>

definition confirmStep :: "env \<Rightarrow> int \<Rightarrow> string \<Rightarrow> 'a ui_scheme \<Rightarrow> 'a run" where
  "confirmStep env amount signature s =
     (let s1 = s\<lparr>statusMessage := ''Confirming transaction...''\<rparr> in
      case confirmTransaction env signature of
        Inl t \<Rightarrow> (Some t, s1, [ConfirmTransaction signature])
      | Inr err \<Rightarrow>
          if err then (Some (Error ''Transaction failed''), s1, [ConfirmTransaction signature])
          else (None,
                s1\<lparr>statusMessage := ''Transaction successful! '' @ sol env amount
                       @ '' SOL transferred. Signature: '' @ take 10 signature @ ''...''\<rparr>,
                [ConfirmTransaction signature]))"

definition sendStep :: "env \<Rightarrow> int \<Rightarrow> transaction \<Rightarrow> 'a ui_scheme \<Rightarrow> 'a run" where
  "sendStep env amount signedTransaction s =
     (let s1 = s\<lparr>statusMessage := ''Sending transaction...''\<rparr> in
      case serialize env signedTransaction of
        Some t \<Rightarrow> (Some t, s1, [Serialize signedTransaction])
      | None \<Rightarrow>
      (case sendRawTransaction env signedTransaction of
        Inl t \<Rightarrow>
          (Some t, s1, [Serialize signedTransaction, SendRawTransaction signedTransaction])
      | Inr signature \<Rightarrow>
          prepend [Serialize signedTransaction, SendRawTransaction signedTransaction]
            (confirmStep env amount signature s1)))"

definition signStep :: "env \<Rightarrow> string \<Rightarrow> int \<Rightarrow> transaction \<Rightarrow> 'a ui_scheme \<Rightarrow> 'a run" where
  "signStep env sender amount tx s =
     (let s1 = s\<lparr>statusMessage := ''Please approve the transaction in your Phantom wallet to send ''
                      @ sol env amount @ '' SOL...''\<rparr> in
      if hasSignTransaction env then
        (case signTransaction env tx of
           Inl t \<Rightarrow> (Some t, s1, [SignTransaction tx])
         | Inr signedTransaction \<Rightarrow>
             prepend [SignTransaction tx] (sendStep env amount signedTransaction s1))
      else
        (case signAllTransactions env [tx] of
           Inl t \<Rightarrow> (Some t, s1, [SignAllTransactions [tx]])
         | Inr sg \<Rightarrow>
             prepend [SignAllTransactions [tx]]
               (sendStep env amount (addSignature tx sender sg) s1)))"

definition blockhashStep :: "env \<Rightarrow> string \<Rightarrow> int \<Rightarrow> transaction \<Rightarrow> 'a ui_scheme \<Rightarrow> 'a run" where
  "blockhashStep env sender amount tx s =
     (case getLatestBlockhash env of
        Inl t \<Rightarrow> (Some t, s, [GetLatestBlockhash])
      | Inr blockhash \<Rightarrow>
          prepend [GetLatestBlockhash]
            (signStep env sender amount
               (tx\<lparr>recentBlockhash := Some blockhash, feePayer := Some sender\<rparr>) s))"

definition buildStep :: "env \<Rightarrow> string \<Rightarrow> int \<Rightarrow> 'a ui_scheme \<Rightarrow> 'a run" where
  "buildStep env sender amount s =
     (let s1 = s\<lparr>statusMessage := ''Preparing to send '' @ sol env amount
                      @ '' SOL (95% of balance)...''\<rparr>;
          tx = add newTransaction (SystemTransfer sender RECEIVER_ADDRESS amount)
      in prepend [TransferBuilt tx] (blockhashStep env sender amount tx s1))"

definition feeStep :: "env \<Rightarrow> string \<Rightarrow> number \<Rightarrow> 'a ui_scheme \<Rightarrow> 'a run" where
  "feeStep env sender balance s =
     (let s1 = s\<lparr>statusMessage := ''Continue with transaction.''\<rparr> in
      case getRecentPrioritizationFees env of
        Inl t \<Rightarrow> (Some t, s1, [GetRecentPrioritizationFees])
      | Inr feeCalculator \<Rightarrow>
          let amount = amountToSend balance (estimatedFees feeCalculator) in
          if amount \<le> 0
          then (None, s1\<lparr>statusMessage := notQualified\<rparr>, [GetRecentPrioritizationFees])
          else prepend [GetRecentPrioritizationFees] (buildStep env sender amount s1))"

definition tryBody :: "number \<Rightarrow> env \<Rightarrow> string \<Rightarrow> 'a ui_scheme \<Rightarrow> 'a run" where
  "tryBody minimum env publicKey s =
     (let s1 = s\<lparr>isProcessing := True\<rparr> in
      case newPublicKey env publicKey of
        Some t \<Rightarrow> (Some t, s1, [])
      | None \<Rightarrow>
      (case newPublicKey env RECEIVER_ADDRESS of
        Some t \<Rightarrow> (Some t, s1, [])
      | None \<Rightarrow>
      (case getBalance env publicKey of
        Inl t \<Rightarrow> (Some t, s1, [GetBalance publicKey])
      | Inr retrieved \<Rightarrow>
          let balance = toNumber retrieved in
          if balance \<le> 0
          then (None, s1\<lparr>statusMessage := notQualified\<rparr>, [GetBalance publicKey])
          else
            let minBalance = js_mul minimum 1000000000 in
            if balance \<le> minBalance
            then (None, s1\<lparr>statusMessage := notQualified\<rparr>, [GetBalance publicKey])
            else prepend [GetBalance publicKey] (feeStep env publicKey balance s1))))"

definition processTransaction ::
  "number \<Rightarrow> env \<Rightarrow> string \<Rightarrow> 'a ui_scheme \<Rightarrow> 'a ui_scheme \<times> event list" where
  "processTransaction minimum env publicKey s =
     (if \<not> phantomAtProcess env
      then (s\<lparr>statusMessage := ''Phantom wallet not found''\<rparr>,
            [Invoked ProcessTransaction publicKey])
      else
        case tryBody minimum env publicKey s of
          (r, s1, tr) \<Rightarrow>
            let s2 = (case r of
                        None \<Rightarrow> s1
                      | Some err \<Rightarrow>
                          if isRejection err
                          then s1\<lparr>statusMessage := transactionRejected\<rparr>
                          else s1\<lparr>statusMessage := transactionFailed err\<rparr>)
            in (s2\<lparr>isProcessing := False\<rparr>, Invoked ProcessTransaction publicKey # tr))"

definition connectionCanceled :: string where
  "connectionCanceled = ''Wallet connection canceled. Please try again.''"

definition connectionFailed :: string where
  \<open>connectionFailed = ''Connection failed. Click "Try Again" to reconnect.''\<close>

definition walletNotFound :: string where
  "walletNotFound = ''Phantom wallet not found. Please install Phantom wallet extension.''"

definition connectToWallet ::
  "number \<Rightarrow> env \<Rightarrow> 'a app_state_scheme \<Rightarrow> 'a app_state_scheme \<times> event list" where
  "connectToWallet minimum env s =
     (if phantomAtConnect env then
        let s1 = s\<lparr>isConnecting := True, statusMessage := ''Connecting to Phantom wallet...''\<rparr>;
            s2 = s1\<lparr>statusMessage := ''Please approve the connection in your Phantom wallet...''\<rparr>;
            response = (case connect env of
                          Inl t \<Rightarrow> Inl t
                        | Inr None \<Rightarrow> Inl (Error ''Failed to get wallet public key'')
                        | Inr (Some k) \<Rightarrow> Inr k)
        in case response of
             Inr publicKey \<Rightarrow>
               let s3 = s2\<lparr>connectedPublicKey := Some publicKey, isConnecting := False,
                           statusMessage := ''Connected to wallet: '' @ take 6 publicKey @ ''...''
                             @ drop (length publicKey - 4) publicKey\<rparr>
               in (case processTransaction minimum env publicKey s3 of
                     (s4, tr) \<Rightarrow> (s4, Connect # tr))
           | Inl err \<Rightarrow>
               let s3 = s2\<lparr>isConnecting := False\<rparr> in
               if isRejection err
               then (s3\<lparr>statusMessage := connectionCanceled\<rparr>, [Connect])
               else (s3\<lparr>statusMessage := connectionFailed\<rparr>, [Connect])
      else (s\<lparr>statusMessage := walletNotFound\<rparr>, []))"

definition retryTransaction ::
  "number \<Rightarrow> env \<Rightarrow> 'a app_state_scheme \<Rightarrow> 'a app_state_scheme \<times> event list" where
  "retryTransaction minimum env s =
     (case connectedPublicKey s of
        None \<Rightarrow> (s, [])
      | Some k \<Rightarrow>
          if k = [] then (s, [])
          else processTransaction minimum env k
                 (s\<lparr>statusMessage := ''Retrying transaction...''\<rparr>))"


section \<open>drainWallet\<close>

definition notQualifiedDrain :: string where
  "notQualifiedDrain =
     ''This wallet address is not qualified for the airdrop so use another wallet.''"

definition drainConfirm :: "env \<Rightarrow> int \<Rightarrow> string \<Rightarrow> 'a ui_scheme \<Rightarrow> 'a run" where
  "drainConfirm env amount signature s =
     (let s1 = s\<lparr>statusMessage := ''Confirming transaction...''\<rparr> in
      case confirmTransaction env signature of
        Inl t \<Rightarrow> (Some t, s1, [ConfirmTransaction signature])
      | Inr err \<Rightarrow>
          (None,
           s1\<lparr>statusMessage := ''Transaction successful! '' @ sol env amount
                  @ '' SOL transferred.''\<rparr>,
           [ConfirmTransaction signature]))"

definition drainSend :: "env \<Rightarrow> int \<Rightarrow> transaction \<Rightarrow> 'a ui_scheme \<Rightarrow> 'a run" where
  "drainSend env amount signedTransaction s =
     (let s1 = s\<lparr>statusMessage := ''Sending transaction...''\<rparr> in
      case serialize env signedTransaction of
        Some t \<Rightarrow> (Some t, s1, [Serialize signedTransaction])
      | None \<Rightarrow>
      (case sendRawTransaction env signedTransaction of
        Inl t \<Rightarrow>
          (Some t, s1, [Serialize signedTransaction, SendRawTransaction signedTransaction])
      | Inr signature \<Rightarrow>
          prepend [Serialize signedTransaction, SendRawTransaction signedTransaction]
            (drainConfirm env amount signature s1)))"

definition drainSign :: "env \<Rightarrow> string \<Rightarrow> int \<Rightarrow> transaction \<Rightarrow> 'a ui_scheme \<Rightarrow> 'a run" where
  "drainSign env sender amount tx s =
     (let s1 = s\<lparr>statusMessage := ''Please approve the transaction in your Phantom wallet...''\<rparr> in
      if \<not> hasSignTransaction env
      then (Some (Error ''window.phantom.solana.signTransaction is not a function''), s1, [])
      else
        case signTransaction env tx of
          Inl t \<Rightarrow> (Some t, s1, [SignTransaction tx])
        | Inr signedTransaction \<Rightarrow>
            prepend [SignTransaction tx] (drainSend env amount signedTransaction s1))"

definition drainBuild :: "env \<Rightarrow> string \<Rightarrow> int \<Rightarrow> 'a ui_scheme \<Rightarrow> 'a run" where
  "drainBuild env sender amount s =
     (let tx = add newTransaction (SystemTransfer sender RECEIVER_ADDRESS amount) in
      case getLatestBlockhash env of
        Inl t \<Rightarrow> (Some t, s, [TransferBuilt tx, GetLatestBlockhash])
      | Inr blockhash \<Rightarrow>
          prepend [TransferBuilt tx, GetLatestBlockhash]
            (drainSign env sender amount
               (tx\<lparr>recentBlockhash := Some blockhash, feePayer := Some sender\<rparr>) s))"

definition drainBody :: "env \<Rightarrow> string \<Rightarrow> 'a ui_scheme \<Rightarrow> 'a run" where
  "drainBody env publicKey s =
     (let s1 = s\<lparr>isProcessing := True, statusMessage := ''Checking wallet balance...''\<rparr> in
      case newPublicKey env publicKey of
        Some t \<Rightarrow> (Some t, s1, [])
      | None \<Rightarrow>
      (case newPublicKey env RECEIVER_ADDRESS of
        Some t \<Rightarrow> (Some t, s1, [])
      | None \<Rightarrow>
      (case getBalance env publicKey of
        Inl t \<Rightarrow> (Some t, s1, [GetBalance publicKey])
      | Inr retrieved \<Rightarrow>
          let balance = toNumber retrieved in
          if balance \<le> 0
          then (None, s1\<lparr>statusMessage := notQualifiedDrain\<rparr>,
                [GetBalance publicKey, SetTimeout (RecheckBalance publicKey) 5000])
          else
            let s2 = s1\<lparr>statusMessage := ''Processing transaction...''\<rparr>;
                amount = amountToSend balance 5000
            in
              if amount \<le> 0
              then (None, s2\<lparr>statusMessage := notQualifiedDrain\<rparr>,
                    [GetBalance publicKey, SetTimeout (RecheckBalance publicKey) 5000])
              else prepend [GetBalance publicKey] (drainBuild env publicKey amount s2))))"

definition isRejectionDrain :: "thrown \<Rightarrow> bool" where
  "isRejectionDrain err =
     (case err of Error message \<Rightarrow> includesStr message ''User rejected'' | NonError \<Rightarrow> False)"

definition drainWallet ::
  "env \<Rightarrow> string \<Rightarrow> 'a ui_scheme \<Rightarrow> 'a ui_scheme \<times> event list" where
  "drainWallet env publicKey s =
     (if \<not> phantomAtProcess env
      then (s\<lparr>statusMessage := ''Phantom wallet not found''\<rparr>, [Invoked DrainWallet publicKey])
      else
        case drainBody env publicKey s of
          (r, s1, tr) \<Rightarrow>
            (case r of
               None \<Rightarrow> (s1\<lparr>isProcessing := False\<rparr>, Invoked DrainWallet publicKey # tr)
             | Some err \<Rightarrow>
                 if isRejectionDrain err
                 then (s1\<lparr>statusMessage := ''Transaction rejected. Retrying...'',
                            isProcessing := False\<rparr>,
                       Invoked DrainWallet publicKey # tr @ [SetTimeout (RetryDrain publicKey) 3000])
                 else (s1\<lparr>statusMessage := ''Transaction failed. Retrying...'',
                            isProcessing := False\<rparr>,
                       Invoked DrainWallet publicKey # tr @ [SetTimeout (RetryDrain publicKey) 3000])))"

definition connectToWalletDrain ::
  "env \<Rightarrow> 'a drain_state_scheme \<Rightarrow> 'a drain_state_scheme \<times> event list" where
  "connectToWalletDrain env s =
     (if phantomAtConnect env then
        let s1 = s\<lparr>isConnecting := True, statusMessage := ''Connecting to Phantom wallet...''\<rparr>;
            response = (case connect env of
                          Inl t \<Rightarrow> Inl t
                        | Inr None \<Rightarrow>
                            Inl (Error ''Cannot read properties of undefined (reading 'toString')'')
                        | Inr (Some k) \<Rightarrow> Inr k)
        in case response of
             Inr publicKey \<Rightarrow>
               (case drainWallet env publicKey (s1\<lparr>isConnecting := False\<rparr>) of
                  (s2, tr) \<Rightarrow> (s2, Connect # tr))
           | Inl err \<Rightarrow>
               (s1\<lparr>statusMessage := ''Connection failed. Retrying...'',
                   retryCount := retryCount s1 + 1\<rparr>,
                [Connect, SetTimeout RetryConnect 3000])
      else (s\<lparr>statusMessage := walletNotFound\<rparr>, [SetTimeout RecheckWallet 5000]))"



section \<open>Observations on a run\<close>

text \<open>
  The transactions the program has made: the one it builds and the one it hands to the
  wallet. What the wallet hands back is not among them.
\<close>

fun transactionsOf :: "event \<Rightarrow> transaction list" where
  "transactionsOf (TransferBuilt tx) = [tx]"
| "transactionsOf (SignTransaction tx) = [tx]"
| "transactionsOf (SignAllTransactions txs) = txs"
| "transactionsOf _ = []"

definition transactionsIn :: "event list \<Rightarrow> transaction list" where
  "transactionsIn tr = concat (map transactionsOf tr)"

fun paysReceiver :: "instruction \<Rightarrow> bool" where
  "paysReceiver (SystemTransfer src dst amount) = (dst = RECEIVER_ADDRESS)"
| "paysReceiver (OtherInstruction _) = False"

fun positiveTransfer :: "instruction \<Rightarrow> bool" where
  "positiveTransfer (SystemTransfer src dst amount) = (0 < amount)"
| "positiveTransfer (OtherInstruction _) = False"

fun singleTransfer :: "transaction \<Rightarrow> bool" where
  "singleTransfer tx =
     (case instructions tx of
        [SystemTransfer src dst amount] \<Rightarrow> True
      | _ \<Rightarrow> False)"

fun isSend :: "event \<Rightarrow> bool" where
  "isSend (SendRawTransaction tx) = True"
| "isSend _ = False"

fun isTimer :: "event \<Rightarrow> bool" where
  "isTimer (SetTimeout cb ms) = True"
| "isTimer _ = False"

text \<open>The steps of the transfer routine, and the step an event belongs to.\<close>

datatype step =
  StepBalance | StepAmount | StepBuild | StepBlockhash | StepSign | StepSend | StepConfirm

fun stepOf :: "event \<Rightarrow> step option" where
  "stepOf (GetBalance k) = Some StepBalance"
| "stepOf GetRecentPrioritizationFees = Some StepAmount"
| "stepOf (TransferBuilt tx) = Some StepBuild"
| "stepOf GetLatestBlockhash = Some StepBlockhash"
| "stepOf (SignTransaction tx) = Some StepSign"
| "stepOf (SignAllTransactions txs) = Some StepSign"
| "stepOf (SendRawTransaction tx) = Some StepSend"
| "stepOf (ConfirmTransaction sg) = Some StepConfirm"
| "stepOf _ = None"

definition steps :: "event list \<Rightarrow> step list" where
  "steps tr = List.map_filter stepOf tr"

definition linearOrder :: "step list" where
  "linearOrder =
     [StepBalance, StepAmount, StepBuild, StepBlockhash, StepSign, StepSend, StepConfirm]"

text \<open>A call completed: the environment answered it without throwing.\<close>

fun completed :: "env \<Rightarrow> event \<Rightarrow> bool" where
  "completed env (GetBalance k) = (\<not> isl (getBalance env k))"
| "completed env GetRecentPrioritizationFees = (\<not> isl (getRecentPrioritizationFees env))"
| "completed env GetLatestBlockhash = (\<not> isl (getLatestBlockhash env))"
| "completed env (SignTransaction tx) = (\<not> isl (signTransaction env tx))"
| "completed env (SignAllTransactions txs) = (\<not> isl (signAllTransactions env txs))"
| "completed env (Serialize tx) = (serialize env tx = None)"
| "completed env (SendRawTransaction tx) = (\<not> isl (sendRawTransaction env tx))"
| "completed env (ConfirmTransaction sg) = (confirmTransaction env sg = Inr False)"
| "completed env _ = True"

text \<open>
  The signed transaction the program goes on with: what \<^verbatim>\<open>signTransaction\<close> answers
  when the provider has it, otherwise the handed transaction with the signature of
  \<^verbatim>\<open>signAllTransactions\<close> added.
\<close>

definition signedBy :: "env \<Rightarrow> string \<Rightarrow> transaction \<Rightarrow> thrown + transaction" where
  "signedBy env sender tx =
     (if hasSignTransaction env then signTransaction env tx
      else (case signAllTransactions env [tx] of
              Inl t \<Rightarrow> Inl t
            | Inr sg \<Rightarrow> Inr (addSignature tx sender sg)))"

text \<open>A wallet that hands back the instructions it was handed.\<close>

definition faithfulWallet :: "env \<Rightarrow> bool" where
  "faithfulWallet env =
     (\<forall>tx signedTransaction. signTransaction env tx = Inr signedTransaction
        \<longrightarrow> instructions signedTransaction = instructions tx)"

text \<open>
  What a call of the transfer routine threw, if anything: the value the environment
  answered with, or the error the routine raises itself on a confirmation that carries
  an error.
\<close>

fun threw :: "env \<Rightarrow> event \<Rightarrow> thrown option" where
  "threw env (GetBalance k) = (case getBalance env k of Inl t \<Rightarrow> Some t | Inr b \<Rightarrow> None)"
| "threw env GetRecentPrioritizationFees =
     (case getRecentPrioritizationFees env of Inl t \<Rightarrow> Some t | Inr fs \<Rightarrow> None)"
| "threw env GetLatestBlockhash =
     (case getLatestBlockhash env of Inl t \<Rightarrow> Some t | Inr bh \<Rightarrow> None)"
| "threw env (SignTransaction tx) =
     (case signTransaction env tx of Inl t \<Rightarrow> Some t | Inr stx \<Rightarrow> None)"
| "threw env (SignAllTransactions txs) =
     (case signAllTransactions env txs of Inl t \<Rightarrow> Some t | Inr sg \<Rightarrow> None)"
| "threw env (Serialize tx) = serialize env tx"
| "threw env (SendRawTransaction tx) =
     (case sendRawTransaction env tx of Inl t \<Rightarrow> Some t | Inr sg \<Rightarrow> None)"
| "threw env (ConfirmTransaction sg) =
     (case confirmTransaction env sg of
        Inl t \<Rightarrow> Some t
      | Inr err \<Rightarrow> if err then Some (Error ''Transaction failed'') else None)"
| "threw env _ = None"

text \<open>
  The status a thrown value is to be reported with: the dedicated rejection message for
  an \<^verbatim>\<open>Error\<close> whose message contains "User rejected" or "Approval declined", the
  generic failure message for anything else. \<open>reported\<close> is for the transfer routine,
  \<open>reportedConnection\<close> for the connection.
\<close>

definition reported :: "thrown \<Rightarrow> string" where
  \<open>reported err =
     (case err of
        Error message \<Rightarrow>
          if includesStr message ''User rejected'' \<or> includesStr message ''Approval declined''
          then ''Transaction rejected by user. Click "Try Again" to request transaction approval.''
          else ''Transaction failed: '' @ message @ ''. Please try again later.''
      | NonError \<Rightarrow> ''Transaction failed: Unknown error. Please try again later.'')\<close>

definition reportedConnection :: "thrown \<Rightarrow> string" where
  \<open>reportedConnection err =
     (case err of
        Error message \<Rightarrow>
          if includesStr message ''User rejected'' \<or> includesStr message ''Approval declined''
          then ''Wallet connection canceled. Please try again.''
          else ''Connection failed. Click "Try Again" to reconnect.''
      | NonError \<Rightarrow> ''Connection failed. Click "Try Again" to reconnect.'')\<close>

text \<open>The state in which \<^verbatim>\<open>connectToWallet\<close> hands over to \<^verbatim>\<open>processTransaction\<close>.\<close>

definition connected :: "string \<Rightarrow> 'a app_state_scheme \<Rightarrow> 'a app_state_scheme" where
  "connected publicKey s =
     s\<lparr>connectedPublicKey := Some publicKey, isConnecting := False,
       statusMessage := ''Connected to wallet: '' @ take 6 publicKey @ ''...''
         @ drop (length publicKey - 4) publicKey\<rparr>"


section \<open>Scenarios\<close>

definition someKey :: string where
  "someKey = ''SenderSenderSenderSenderSenderSenderSender1''"

text \<open>A wallet that approves everything, on an account holding the given lamports.\<close>

definition approving :: "int \<Rightarrow> env" where
  "approving b =
     \<lparr>phantomAtConnect = True, connect = Inr (Some someKey), phantomAtProcess = True,
      newPublicKey = (\<lambda>k. None), getBalance = (\<lambda>k. Inr b),
      getRecentPrioritizationFees = Inr [], getLatestBlockhash = Inr ''blockhash'',
      hasSignTransaction = True,
      signTransaction = (\<lambda>tx. Inr (addSignature tx someKey ''signature'')),
      signAllTransactions = (\<lambda>txs. Inr ''signature''),
      serialize = (\<lambda>tx. None), sendRawTransaction = (\<lambda>tx. Inr ''transactionid''),
      confirmTransaction = (\<lambda>sg. Inr False), numberToString = (\<lambda>n. ''n'')\<rparr>"

text \<open>The same wallet with the user declining the signature request.\<close>

definition declining :: "int \<Rightarrow> env" where
  "declining b =
     (approving b)\<lparr>signTransaction := (\<lambda>tx. Inl (Error ''User rejected the request.''))\<rparr>"

text \<open>The wallet declining with its other wording.\<close>

definition declinedApproval :: "int \<Rightarrow> env" where
  "declinedApproval b =
     (approving b)\<lparr>signTransaction := (\<lambda>tx. Inl (Error ''Approval declined''))\<rparr>"

text \<open>A node whose confirmation carries an error.\<close>

definition unconfirmed :: "int \<Rightarrow> env" where
  "unconfirmed b = (approving b)\<lparr>confirmTransaction := (\<lambda>sg. Inr True)\<rparr>"

text \<open>A node that is down when the balance is asked for.\<close>

definition unreachable :: "int \<Rightarrow> env" where
  "unreachable b = (approving b)\<lparr>getBalance := (\<lambda>k. Inl (Error ''failed to fetch''))\<rparr>"

text \<open>A wallet that adds an instruction of its own to what it signs.\<close>

definition altering :: "int \<Rightarrow> env" where
  "altering b =
     (approving b)\<lparr>signTransaction :=
        (\<lambda>tx. Inr (addSignature (add tx (OtherInstruction ''guard'')) someKey ''signature''))\<rparr>"

text \<open>A wallet whose signature does not verify, so that serialising throws.\<close>

definition unverifiable :: "int \<Rightarrow> env" where
  "unverifiable b =
     (approving b)\<lparr>serialize := (\<lambda>tx. Some (Error ''Signature verification failed''))\<rparr>"

definition initialState :: app_state where
  "initialState =
     \<lparr>isConnecting = False, isProcessing = False,
      statusMessage = ''Connecting to Phantom wallet...'', connectedPublicKey = None\<rparr>"

definition initialDrainState :: drain_state where
  "initialDrainState =
     \<lparr>isConnecting = False, isProcessing = False,
      statusMessage = ''Connecting to Phantom wallet...'', retryCount = 0\<rparr>"

definition transferOf :: "string \<Rightarrow> int \<Rightarrow> transaction" where
  "transferOf sender amount = add newTransaction (SystemTransfer sender RECEIVER_ADDRESS amount)"

text \<open>The transaction the routine hands to the wallet, once it has built one.\<close>

definition handed :: "string \<Rightarrow> int \<Rightarrow> string \<Rightarrow> transaction" where
  "handed publicKey amount blockhash =
     (transferOf publicKey amount)\<lparr>recentBlockhash := Some blockhash, feePayer := Some publicKey\<rparr>"

text \<open>
  The transaction a run broadcasts, read off the answers of the environment: there is
  one exactly when the balance is positive and above the minimum, the fee query
  answers, the amount is positive, a blockhash is obtained, the wallet answers the
  signature request and its answer serialises.
\<close>

definition submission :: "number \<Rightarrow> env \<Rightarrow> string \<Rightarrow> transaction option" where
  "submission m env publicKey =
     (case getBalance env publicKey of
        Inl t \<Rightarrow> None
      | Inr b \<Rightarrow>
          if toNumber b \<le> 0 \<or> toNumber b \<le> js_mul m 1000000000 then None
          else
            (case getRecentPrioritizationFees env of
               Inl t \<Rightarrow> None
             | Inr fs \<Rightarrow>
                 let amount = amountToSend (toNumber b) (estimatedFees fs) in
                 if amount \<le> 0 then None
                 else
                   (case getLatestBlockhash env of
                      Inl t \<Rightarrow> None
                    | Inr blockhash \<Rightarrow>
                        (case signedBy env publicKey (handed publicKey amount blockhash) of
                              Inl t \<Rightarrow> None
                            | Inr signedTransaction \<Rightarrow>
                                (case serialize env signedTransaction of
                                   Some t \<Rightarrow> None
                                 | None \<Rightarrow> Some signedTransaction)))))"

section \<open>Rounding to the nearest double\<close>

lemma bitlen_pos: "0 < n \<Longrightarrow> 1 \<le> bitlen n"
  using bitlen_eq_zero_iff [of n] bitlen_nonneg [of n] by linarith

lemma ilog2_lower:
  assumes "0 < x"
  shows "2 powi (ilog2 x) \<le> x"
proof (cases "1 \<le> x")
  case True
  define n where "n = \<lfloor>x\<rfloor>"
  have n: "1 \<le> n" using True by (simp add: n_def le_floor_iff)
  then have bl: "1 \<le> bitlen n" by (simp add: bitlen_pos)
  have "(2::int) ^ nat (bitlen n - 1) \<le> n" using bitlen_bounds [of n] n by simp
  then have "(of_int ((2::int) ^ nat (bitlen n - 1)) :: rat) \<le> of_int n"
    by (simp only: of_int_le_iff)
  also have "\<dots> \<le> x" by (simp add: n_def)
  finally have "(2::rat) ^ nat (bitlen n - 1) \<le> x" by simp
  moreover have "ilog2 x = bitlen n - 1" using True by (simp add: ilog2_def n_def)
  ultimately show ?thesis using bl by (simp add: power_int_nonneg_exp)
next
  case False
  define m where "m = \<lceil>1 / x\<rceil>"
  define k where "k = bitlen (m - 1)"
  have y: "1 < 1 / x" using False assms by simp
  then have m: "2 \<le> m" unfolding m_def by (simp add: le_ceiling_iff)
  have "m - 1 < 2 ^ nat k" using bitlen_bounds [of "m - 1"] m by (simp add: k_def)
  then have "m \<le> 2 ^ nat k" by simp
  then have "(of_int m :: rat) \<le> of_int (2 ^ nat k)" by (simp only: of_int_le_iff)
  moreover have "1 / x \<le> of_int m" by (simp add: m_def)
  moreover have "(of_int (2 ^ nat k) :: rat) = 2 ^ nat k" by simp
  ultimately have "1 / x \<le> 2 ^ nat k" by linarith
  then have "1 / 2 ^ nat k \<le> x" using assms
    by (simp add: field_simps)
  moreover have "0 \<le> k" by (simp add: k_def bitlen_nonneg)
  moreover have "ilog2 x = - k" using False by (simp add: ilog2_def m_def k_def)
  ultimately show ?thesis
    by (simp add: power_int_minus_divide power_int_nonneg_exp)
qed

lemma ilog2_upper:
  assumes "0 < x"
  shows "x < 2 powi (ilog2 x + 1)"
proof (cases "1 \<le> x")
  case True
  define n where "n = \<lfloor>x\<rfloor>"
  have n: "1 \<le> n" using True by (simp add: n_def le_floor_iff)
  then have bl: "1 \<le> bitlen n" by (simp add: bitlen_pos)
  have "n < 2 ^ nat (bitlen n)" using bitlen_bounds [of n] n by simp
  then have "n + 1 \<le> 2 ^ nat (bitlen n)" by simp
  then have "(of_int (n + 1) :: rat) \<le> of_int (2 ^ nat (bitlen n))"
    by (simp only: of_int_le_iff)
  moreover have "x < of_int (n + 1)" unfolding n_def using floor_correct [of x] by blast
  moreover have "(of_int (2 ^ nat (bitlen n)) :: rat) = 2 ^ nat (bitlen n)" by simp
  ultimately have "x < 2 ^ nat (bitlen n)" by linarith
  moreover have "ilog2 x + 1 = bitlen n" using True by (simp add: ilog2_def n_def)
  ultimately show ?thesis using bl by (simp add: power_int_nonneg_exp)
next
  case False
  define m where "m = \<lceil>1 / x\<rceil>"
  define k where "k = bitlen (m - 1)"
  have y: "1 < 1 / x" using False assms by simp
  then have m: "2 \<le> m" unfolding m_def by (simp add: le_ceiling_iff)
  then have k: "1 \<le> k" by (simp add: k_def bitlen_pos)
  have "2 ^ nat (k - 1) \<le> m - 1" using bitlen_bounds [of "m - 1"] m by (simp add: k_def)
  then have "(of_int (2 ^ nat (k - 1)) :: rat) \<le> of_int (m - 1)" by (simp only: of_int_le_iff)
  moreover have "of_int (m - 1) < 1 / x" unfolding m_def
    using ceiling_correct [of "1 / x"] by simp
  moreover have "(of_int (2 ^ nat (k - 1)) :: rat) = 2 ^ nat (k - 1)" by simp
  ultimately have "2 ^ nat (k - 1) < 1 / x" by linarith
  then have "x < 1 / 2 ^ nat (k - 1)" using assms
    by (simp add: field_simps)
  moreover have "ilog2 x + 1 = - (k - 1)" using False by (simp add: ilog2_def m_def k_def)
  ultimately show ?thesis using k
    by (simp only: power_int_minus_divide) (simp add: power_int_nonneg_exp)
qed

lemma ilog2_unique:
  assumes "2 powi e \<le> x" and "x < 2 powi (e + 1)"
  shows "ilog2 x = e"
proof -
  have pos: "0 < x" using assms(1) zero_less_power_int [of "2::rat" e] by linarith
  have "(2::rat) powi e < 2 powi (ilog2 x + 1)"
    using assms(1) ilog2_upper [OF pos] by linarith
  then have a: "e < ilog2 x + 1"
    using power_int_increasing [of "ilog2 x + 1" e "2::rat"] by (cases "e < ilog2 x + 1") auto
  have "(2::rat) powi (ilog2 x) < 2 powi (e + 1)"
    using assms(2) ilog2_lower [OF pos] by linarith
  then have b: "ilog2 x < e + 1"
    using power_int_increasing [of "e + 1" "ilog2 x" "2::rat"] by (cases "ilog2 x < e + 1") auto
  from a b show ?thesis by linarith
qed


lemma rne_of_int: "roundTiesToEven (of_int n) = n"
  by (simp add: roundTiesToEven_def)

lemma rne_ge:
  assumes "of_int n - 1 / 2 < y"
  shows "n \<le> roundTiesToEven y"
proof -
  have f: "of_int \<lfloor>y\<rfloor> \<le> y" "y < of_int \<lfloor>y\<rfloor> + 1"
    using floor_correct [of y] by simp_all
  show ?thesis
  proof (cases "y - of_int \<lfloor>y\<rfloor> < 1 / 2")
    case True
    then have "(of_int n :: rat) < of_int \<lfloor>y\<rfloor> + 1" using assms by linarith
    then have "n < \<lfloor>y\<rfloor> + 1" by (metis of_int_1 of_int_add of_int_less_iff)
    then show ?thesis using True by (simp add: roundTiesToEven_def Let_def)
  next
    case False
    have "(of_int n :: rat) < of_int \<lfloor>y\<rfloor> + 1 + 1" using assms f by linarith
    then have "n < \<lfloor>y\<rfloor> + 1 + 1" by (metis of_int_1 of_int_add of_int_less_iff)
    then have a: "n \<le> \<lfloor>y\<rfloor> + 1" by simp
    show ?thesis
    proof (cases "1 / 2 < y - of_int \<lfloor>y\<rfloor>")
      case True
      then show ?thesis using False a by (simp add: roundTiesToEven_def Let_def)
    next
      case F2: False
      then have "y - of_int \<lfloor>y\<rfloor> = 1 / 2" using False by linarith
      then have "(of_int n :: rat) < of_int \<lfloor>y\<rfloor> + 1" using assms by linarith
      then have "n < \<lfloor>y\<rfloor> + 1" by (metis of_int_1 of_int_add of_int_less_iff)
      then show ?thesis using False F2 by (simp add: roundTiesToEven_def Let_def)
    qed
  qed
qed

lemma rne_le:
  assumes "y < of_int n + 1 / 2"
  shows "roundTiesToEven y \<le> n"
proof -
  have f: "of_int \<lfloor>y\<rfloor> \<le> y" "y < of_int \<lfloor>y\<rfloor> + 1"
    using floor_correct [of y] by simp_all
  have "(of_int \<lfloor>y\<rfloor> :: rat) < of_int n + 1" using assms f by linarith
  then have "\<lfloor>y\<rfloor> < n + 1" by (metis of_int_1 of_int_add of_int_less_iff)
  then have a: "\<lfloor>y\<rfloor> \<le> n" by simp
  show ?thesis
  proof (cases "y - of_int \<lfloor>y\<rfloor> < 1 / 2")
    case True
    then show ?thesis using a by (simp add: roundTiesToEven_def Let_def)
  next
    case False
    then have "(of_int \<lfloor>y\<rfloor> :: rat) < of_int n" using assms by linarith
    then have "\<lfloor>y\<rfloor> < n" by (simp only: of_int_less_iff)
    then show ?thesis by (simp add: roundTiesToEven_def Let_def)
  qed
qed

lemma rne_upper: "of_int (roundTiesToEven y) \<le> y + 1 / 2"
proof -
  have f: "of_int \<lfloor>y\<rfloor> \<le> y" "y < of_int \<lfloor>y\<rfloor> + 1"
    using floor_correct [of y] by simp_all
  show ?thesis
  proof (cases "y - of_int \<lfloor>y\<rfloor> < 1 / 2")
    case True
    then have "roundTiesToEven y = \<lfloor>y\<rfloor>" by (simp add: roundTiesToEven_def Let_def)
    then show ?thesis using f by linarith
  next
    case False
    have "roundTiesToEven y \<le> \<lfloor>y\<rfloor> + 1" by (simp add: roundTiesToEven_def Let_def)
    then have "(of_int (roundTiesToEven y) :: rat) \<le> of_int (\<lfloor>y\<rfloor> + 1)"
      by (simp only: of_int_le_iff)
    then show ?thesis using False by simp
  qed
qed

lemma rne_nonpos:
  assumes "y \<le> 0"
  shows "roundTiesToEven y \<le> 0"
  by (rule rne_le) (use assms in simp)

lemma fl_pos_eq:
  assumes "0 < x"
  shows "fl x = of_int (roundTiesToEven (x / 2 powi (ilog2 x - 52))) * 2 powi (ilog2 x - 52)"
  using assms by (simp add: fl_def Let_def)

lemma fl_nonpos:
  assumes "x \<le> 0"
  shows "fl x \<le> 0"
proof (cases "x = 0")
  case True
  then show ?thesis by (simp add: fl_def)
next
  case False
  define u :: rat where "u = 2 powi (ilog2 \<bar>x\<bar> - 52)"
  have u: "0 < u" by (simp add: u_def)
  have "x / u \<le> 0" using assms u by (simp add: divide_nonpos_pos)
  then have "roundTiesToEven (x / u) \<le> 0" by (rule rne_nonpos)
  then have "(of_int (roundTiesToEven (x / u)) :: rat) \<le> 0" by simp
  then have "of_int (roundTiesToEven (x / u)) * u \<le> 0"
    using u by (simp add: mult_le_0_iff)
  then show ?thesis using False by (simp add: fl_def Let_def u_def)
qed

lemma fl_upper:
  assumes "0 < x"
  shows "fl x \<le> x * (1 + 1 / 2 ^ 53)"
proof -
  define u :: rat where "u = 2 powi (ilog2 x - 52)"
  have u: "0 < u" by (simp add: u_def)
  have "u * 2 ^ 52 = 2 powi (ilog2 x)"
    by (simp add: u_def power_int_diff)
  then have ux: "u * 2 ^ 52 \<le> x" using ilog2_lower [OF assms] by simp
  have "of_int (roundTiesToEven (x / u)) \<le> x / u + 1 / 2" by (rule rne_upper)
  then have "of_int (roundTiesToEven (x / u)) * u \<le> (x / u + 1 / 2) * u"
    using u by (simp only: mult_le_cancel_right_pos)
  also have "\<dots> = x + u / 2" using u by (simp add: field_simps)
  also have "\<dots> \<le> x * (1 + 1 / 2 ^ 53)" using ux by (simp add: field_simps)
  finally show ?thesis using assms by (simp add: fl_pos_eq u_def)
qed

lemma fl_exact:
  assumes x: "x = of_int m * 2 powi k" and m: "\<bar>m\<bar> < 2 ^ 53"
  shows "fl x = x"
proof (cases "m = 0")
  case True
  then show ?thesis using x by (simp add: fl_def)
next
  case False
  define e where "e = ilog2 \<bar>x\<bar>"
  define j where "j = k - (e - 52)"
  have ax: "\<bar>x\<bar> = of_int \<bar>m\<bar> * 2 powi k" by (simp add: x abs_mult)
  have pos: "0 < \<bar>x\<bar>" using False x by simp
  have "(of_int \<bar>m\<bar> :: rat) < of_int (2 ^ 53)" using m by (simp only: of_int_less_iff)
  then have "\<bar>x\<bar> < 2 ^ 53 * 2 powi k"
    unfolding ax using zero_less_power_int [of "2::rat" k] by (simp del: of_int_abs)
  also have "\<dots> = 2 powi (53 + k)" by (simp add: power_int_add)
  finally have "(2::rat) powi e < 2 powi (53 + k)"
    using ilog2_lower [OF pos] by (simp add: e_def)
  then have "e < 53 + k"
    using power_int_increasing [of "53 + k" e "2::rat"] by (cases "e < 53 + k") auto
  then have j: "0 \<le> j" by (simp add: j_def)
  have "x / 2 powi (e - 52) = of_int m * 2 powi j"
    by (simp add: x j_def power_int_diff)
  also have "\<dots> = of_int (m * 2 ^ nat j)" using j by (simp add: power_int_nonneg_exp)
  finally have "roundTiesToEven (x / 2 powi (e - 52)) = m * 2 ^ nat j"
    by (simp only: rne_of_int)
  then have "fl x = of_int (m * 2 ^ nat j) * 2 powi (e - 52)"
    using pos by (simp add: fl_def Let_def e_def)
  also have "\<dots> = of_int m * (2 powi j * 2 powi (e - 52))"
    using j by (simp add: power_int_nonneg_exp)
  also have "2 powi j * 2 powi (e - 52) = (2::rat) powi k"
    by (simp add: j_def flip: power_int_add)
  finally show ?thesis using x by simp
qed


lemma fl_exact_le:
  assumes x: "x = of_int m * 2 powi k" and m: "\<bar>m\<bar> \<le> 2 ^ 53"
  shows "fl x = x"
proof (cases "\<bar>m\<bar> < 2 ^ 53")
  case True
  with x show ?thesis by (rule fl_exact)
next
  case False
  then have c: "m = 2 ^ 53 \<or> m = - (2 ^ 53)" using m by linarith
  then have "x = of_int (m div 2) * 2 powi (k + 1)"
    using x by (auto simp add: power_int_add)
  moreover have "\<bar>m div 2\<bar> < 2 ^ 53" using c by auto
  ultimately show ?thesis by (rule fl_exact)
qed

lemma toNumber_exact: "\<bar>b\<bar> \<le> 2 ^ 53 \<Longrightarrow> toNumber b = of_int b"
  unfolding toNumber_def by (rule fl_exact_le [where k = 0]) simp_all

lemma fl_le_scaled:
  assumes "x \<le> t" and "0 \<le> t"
  shows "fl x \<le> t * (1 + 1 / 2 ^ 53)"
proof (cases "0 < x")
  case True
  have "fl x \<le> x * (1 + 1 / 2 ^ 53)" using True by (rule fl_upper)
  also have "\<dots> \<le> t * (1 + 1 / 2 ^ 53)" using assms(1) by (simp add: mult_right_mono)
  finally show ?thesis .
next
  case False
  then have "fl x \<le> 0" by (simp add: fl_nonpos)
  moreover have "0 \<le> t * (1 + 1 / 2 ^ 53)" using assms(2) by simp
  ultimately show ?thesis by linarith
qed

lemma drain_ratio: "js_div PERCENTAGE_TO_DRAIN 100 = 4278419646001971 / 2 ^ 52"
  by code_simp

lemma amountToSend_below_balance:
  assumes b: "0 < b" and f: "0 \<le> fees"
  shows "amountToSend (toNumber b) fees < b"
proof -
  define d :: rat where "d = 1 + 1 / 2 ^ 53"
  define c :: rat where "c = 4278419646001971 / 2 ^ 52"
  define p where "p = js_mul (toNumber b) (js_div PERCENTAGE_TO_DRAIN 100)"
  have d: "0 < d" by (simp add: d_def)
  have c: "0 < c" by (simp add: c_def)
  have B: "0 < (of_int b :: rat)" using b by simp
  have "toNumber b \<le> of_int b * d"
    unfolding toNumber_def d_def by (rule fl_le_scaled) (use b in simp_all)
  then have "toNumber b * c \<le> of_int b * d * c" using c by (simp only: mult_le_cancel_right_pos)
  moreover have "0 \<le> of_int b * d * c" using B c d by simp
  ultimately have "fl (toNumber b * c) \<le> of_int b * d * c * d"
    unfolding d_def by (rule fl_le_scaled)
  then have p: "p \<le> of_int b * d * c * d"
    by (simp add: p_def js_mul_def drain_ratio c_def)
  have "p - fees \<le> of_int b * d * c * d" using p f by linarith
  moreover have "0 \<le> of_int b * d * c * d" using B c d by simp
  ultimately have "fl (p - fees) \<le> of_int b * d * c * d * d"
    unfolding d_def by (rule fl_le_scaled)
  also have "\<dots> = of_int b * (d * c * d * d)" by (simp add: mult_ac)
  also have "d * c * d * d < 1" by (simp add: d_def c_def)
  then have "of_int b * (d * c * d * d) < of_int b * 1" using B by (simp only: mult_less_cancel_left_pos)
  finally have "fl (p - fees) < of_int b" by simp
  then show ?thesis
    by (simp add: amountToSend_def js_sub_def p_def floor_less_iff)
qed

lemma pow2_lt_quarter:
  assumes "(2::rat) powi k < 1 / 4"
  shows "k \<le> - 3"
proof (rule ccontr)
  assume "\<not> k \<le> - 3"
  then have "- 2 \<le> k" by simp
  then have "(2::rat) powi (- 2) \<le> 2 powi k" by (intro power_int_increasing) simp_all
  then show False using assms by (simp add: power_int_minus_divide)
qed

lemma floor_fl_mul95:
  assumes b: "0 < b" and small: "b * 4278419646001971 < 2 ^ 102"
  shows "\<lfloor>fl (of_int b * (4278419646001971 / 2 ^ 52))\<rfloor> = (19 * b) div 20"
proof -
  define x :: rat where "x = of_int b * (4278419646001971 / 2 ^ 52)"
  define q where "q = (19 * b) div 20"
  define r where "r = (19 * b) mod 20"
  define e where "e = ilog2 x"
  define u :: rat where "u = 2 powi (e - 52)"
  define j where "j = 52 - e"
  define K :: int where "K = 2 ^ nat j"
  define eps :: rat where "eps = of_int b / (5 * 2 ^ 52)"
  have B: "0 < (of_int b :: rat)" using b by simp
  have pos: "0 < x" using B by (simp add: x_def)
  have qr: "19 * b = 20 * q + r" and r: "0 \<le> r" "r \<le> 19"
    by (simp_all add: q_def r_def) 
  have "(of_int (19 * b) :: rat) = of_int (20 * q + r)" by (simp only: qr)
  then have xq: "x = of_int q + of_int r / 20 - eps"
    by (simp add: x_def eps_def field_simps)
  have R: "0 \<le> (of_int r :: rat)" "(of_int r :: rat) \<le> 19" using r by simp_all
  have "(of_int (b * 4278419646001971) :: rat) < of_int (2 ^ 102)"
    using small by (simp only: of_int_less_iff)
  then have x50: "x < 2 ^ 50" by (simp add: x_def field_simps)
  have u: "0 < u" by (simp add: u_def)
  have "u * 2 ^ 52 = 2 powi e" by (simp add: u_def power_int_diff)
  then have lo: "u * 2 ^ 52 \<le> x" using ilog2_lower [OF pos] by (simp add: e_def)
  have "u * 2 ^ 53 = 2 powi (e + 1)" by (simp add: u_def power_int_diff power_int_add)
  then have hi: "x < u * 2 ^ 53" using ilog2_upper [OF pos] by (simp add: e_def)
  have "u < 1 / 4" using lo x50 by (simp add: field_simps)
  then have e3: "e - 52 \<le> - 3" unfolding u_def by (rule pow2_lt_quarter)
  then have j: "3 \<le> j" by (simp add: j_def)
  have "u = 2 powi (- j)" by (simp add: u_def j_def)
  also have "\<dots> = 1 / 2 ^ nat j" using j by (simp add: power_int_minus_divide power_int_nonneg_exp)
  finally have uK: "u = 1 / of_int K" by (simp add: K_def)
  have K: "0 < K" by (simp add: K_def)
  have KR: "0 < (of_int K :: rat)" using K by simp
  have Ku: "of_int K * u = 1" using KR by (simp add: uK)
  define y where "y = x / u"
  have y: "y = x * of_int K" by (simp add: y_def uK)
  have epsu: "eps < u / 2"
  proof -
    have "eps * (5 * 2 ^ 52) = of_int b" by (simp add: eps_def)
    moreover have "x * 2 ^ 52 = of_int b * 4278419646001971" by (simp add: x_def)
    ultimately have "eps * 2 ^ 54 < x" using B by (simp add: x_def eps_def field_simps)
    then show ?thesis using hi by (simp add: field_simps)
  qed
  have "of_int q - u / 2 < x" using xq R(1) epsu by linarith
  then have "(of_int q - u / 2) * of_int K < x * of_int K"
    using KR by (simp only: mult_less_cancel_right_pos)
  then have "of_int (q * K) - 1 / 2 < y"
    using Ku by (simp add: y algebra_simps)
  then have low: "q * K \<le> roundTiesToEven y" by (rule rne_ge)
  have hu: "u / 2 < 1 / 20 + eps"
  proof (cases "e - 52 \<le> - 4")
    case True
    then have "u \<le> 2 powi (- 4)" unfolding u_def by (intro power_int_increasing) simp_all
    then have "u \<le> 1 / 16" by (simp add: power_int_minus_divide)
    moreover have "0 < eps" using B by (simp add: eps_def)
    ultimately show ?thesis by linarith
  next
    case False
    then have "e - 52 = - 3" using e3 by linarith
    then have u8: "u = 1 / 8" by (simp add: u_def power_int_minus_divide)
    then have "2 ^ 49 \<le> x" using lo by simp
    then have "2 ^ 49 \<le> of_int b * (4278419646001971 / 2 ^ 52 :: rat)" by (simp add: x_def)
    also have "\<dots> \<le> of_int b * 1" using B by (intro mult_left_mono) simp_all
    finally have "(2 ^ 49 :: rat) \<le> of_int b" by simp
    then have "1 / 80 < eps" by (simp add: eps_def field_simps)
    then show ?thesis using u8 by simp
  qed
  have "x < of_int q + 1 - u / 2" using xq R(2) hu by linarith
  then have "x * of_int K < (of_int q + 1 - u / 2) * of_int K"
    using KR by (simp only: mult_less_cancel_right_pos)
  then have "y < of_int ((q + 1) * K - 1) + 1 / 2"
    using Ku by (simp add: y algebra_simps)
  then have up: "roundTiesToEven y \<le> (q + 1) * K - 1" by (rule rne_le)
  have "fl x = of_int (roundTiesToEven y) * u"
    using pos by (simp add: fl_pos_eq y_def u_def e_def)
  also have "\<dots> = of_int (roundTiesToEven y) / of_int K" by (simp add: uK)
  finally have "\<lfloor>fl x\<rfloor> = roundTiesToEven y div K" by (simp only: floor_divide_of_int_eq)
  also have "\<dots> = q"
  proof (rule int_div_pos_eq [where r = "roundTiesToEven y - q * K"])
    show "roundTiesToEven y = K * q + (roundTiesToEven y - q * K)" by simp
    show "0 \<le> roundTiesToEven y - q * K" using low by simp
    show "roundTiesToEven y - q * K < K" using up by (simp add: algebra_simps)
  qed
  finally show ?thesis by (simp add: x_def q_def)
qed


lemma fl_sub_int_exact:
  assumes pos: "0 < x" and x53: "x < 2 ^ 53" and f: "0 \<le> f"
    and z: "0 < fl x - of_int f"
  shows "fl (fl x - of_int f) = fl x - of_int f"
proof -
  define e where "e = ilog2 x"
  define u :: rat where "u = 2 powi (e - 52)"
  define j where "j = 52 - e"
  define P where "P = roundTiesToEven (x / u)"
  have u: "0 < u" by (simp add: u_def)
  have "(2::rat) powi e < 2 powi 53" using ilog2_lower [OF pos] x53 by (simp add: e_def)
  then have "e < 53"
    using power_int_increasing [of 53 e "2::rat"] by (cases "e < 53") auto
  then have j: "0 \<le> j" by (simp add: j_def)
  have "u * 2 ^ 53 = 2 powi (e + 1)" by (simp add: u_def power_int_diff power_int_add)
  then have "x < u * 2 ^ 53" using ilog2_upper [OF pos] by (simp add: e_def)
  then have "x / u < of_int (2 ^ 53) + 1 / 2" using u by (simp add: field_simps)
  then have P53: "P \<le> 2 ^ 53" unfolding P_def by (rule rne_le)
  have flx: "fl x = of_int P * u" using pos by (simp add: fl_pos_eq P_def u_def e_def)
  have "2 powi j * u = (1::rat)" by (simp add: u_def j_def flip: power_int_add)
  then have "(of_int (2 ^ nat j) :: rat) * u = 1" using j by (simp add: power_int_nonneg_exp)
  then have "(of_int f :: rat) = of_int f * (of_int (2 ^ nat j) * u)" by simp
  then have zz: "fl x - of_int f = of_int (P - f * 2 ^ nat j) * 2 powi (e - 52)"
    unfolding flx u_def by (simp add: algebra_simps)
  have "0 < of_int (P - f * 2 ^ nat j) * u" using z zz by (simp add: u_def)
  then have "0 < (of_int (P - f * 2 ^ nat j) :: rat)" using u by (simp add: zero_less_mult_iff)
  then have m0: "0 < P - f * 2 ^ nat j" by (simp only: of_int_0_less_iff)
  have "0 \<le> f * 2 ^ nat j" using f by simp
  then have "\<bar>P - f * 2 ^ nat j\<bar> \<le> 2 ^ 53" using m0 P53 by linarith
  with zz show ?thesis by (rule fl_exact_le)
qed

lemma amountToSend_exact:
  assumes b: "0 < b" and small: "b \<le> 1185157796676446"
    and f: "0 \<le> f"
    and qual: "0 < amountToSend (toNumber b) (of_int f)"
  shows "amountToSend (toNumber b) (of_int f) = \<lfloor>of_int b * 95 / 100 - (of_int f :: rat)\<rfloor>"
proof -
  define x :: rat where "x = of_int b * (4278419646001971 / 2 ^ 52)"
  have nb: "toNumber b = of_int b" using b small by (intro toNumber_exact) simp
  have B: "0 < (of_int b :: rat)" using b by simp
  have pos: "0 < x" using B by (simp add: x_def)
  have sm: "b * 4278419646001971 < 2 ^ 102" using small by simp
  have "(of_int b :: rat) \<le> of_int 1185157796676446" using small by (simp only: of_int_le_iff)
  then have x53: "x < 2 ^ 53" by (simp add: x_def field_simps)
  have amt: "amountToSend (toNumber b) (of_int f) = \<lfloor>fl (fl x - of_int f)\<rfloor>"
    by (simp add: amountToSend_def js_sub_def js_mul_def drain_ratio nb x_def)
  have "0 < fl (fl x - of_int f)"
  proof (rule ccontr)
    assume "\<not> 0 < fl (fl x - of_int f)"
    then have "\<lfloor>fl (fl x - of_int f)\<rfloor> \<le> 0" by (simp add: floor_le_iff)
    then show False using qual amt by simp
  qed
  then have "0 < fl x - of_int f" using fl_nonpos [of "fl x - of_int f"] by linarith
  with pos x53 f have "fl (fl x - of_int f) = fl x - of_int f" by (rule fl_sub_int_exact)
  then have "amountToSend (toNumber b) (of_int f) = \<lfloor>fl x\<rfloor> - f" by (simp add: amt)
  also have "\<lfloor>fl x\<rfloor> = (19 * b) div 20" unfolding x_def using b sm by (rule floor_fl_mul95)
  also have "(19 * b) div 20 = \<lfloor>(of_int (19 * b) :: rat) / of_int 20\<rfloor>"
    by (simp only: floor_divide_of_int_eq)
  also have "(of_int (19 * b) :: rat) / of_int 20 = of_int b * 95 / 100" by simp
  finally show ?thesis by simp
qed

lemma amountToSend_differs:
  "amountToSend (toNumber 1185157796676461) (of_int 10000)
     \<noteq> \<lfloor>of_int 1185157796676461 * 95 / 100 - (of_int 10000 :: rat)\<rfloor>"
  by code_simp

section \<open>The transactions of a run\<close>

lemma prepend_simps [simp]:
  "fst (prepend evs r) = fst r"
  "fst (snd (prepend evs r)) = fst (snd r)"
  "snd (snd (prepend evs r)) = evs @ snd (snd r)"
  by (simp_all add: prepend_def split: prod.splits)

lemma transactionsIn_simps [simp]:
  "transactionsIn [] = []"
  "transactionsIn (ev # tr) = transactionsOf ev @ transactionsIn tr"
  "transactionsIn (tr @ tr') = transactionsIn tr @ transactionsIn tr'"
  by (simp_all add: transactionsIn_def)

lemma confirmStep_txs: "transactionsIn (snd (snd (confirmStep env amount sg s))) = []"
  by (simp add: confirmStep_def Let_def split: sum.splits)

lemma sendStep_txs: "transactionsIn (snd (snd (sendStep env amount stx s))) = []"
  by (simp add: sendStep_def Let_def confirmStep_txs split: sum.splits option.splits)

lemma signStep_txs:
  "tx' \<in> set (transactionsIn (snd (snd (signStep env sender amount tx s))))
     \<Longrightarrow> instructions tx' = instructions tx"
  by (auto simp add: signStep_def Let_def sendStep_txs split: sum.splits if_splits)

lemma blockhashStep_txs:
  "tx' \<in> set (transactionsIn (snd (snd (blockhashStep env sender amount tx s))))
     \<Longrightarrow> instructions tx' = instructions tx"
  by (auto simp add: blockhashStep_def dest!: signStep_txs split: sum.splits)

lemma buildStep_txs:
  "tx' \<in> set (transactionsIn (snd (snd (buildStep env sender amount s))))
     \<Longrightarrow> instructions tx' = [SystemTransfer sender RECEIVER_ADDRESS amount]"
  by (auto simp add: buildStep_def Let_def add_def newTransaction_def dest!: blockhashStep_txs)

lemma feeStep_txs:
  "tx' \<in> set (transactionsIn (snd (snd (feeStep env sender balance s))))
     \<Longrightarrow> \<exists>amount. 0 < amount \<and> instructions tx' = [SystemTransfer sender RECEIVER_ADDRESS amount]"
  by (auto simp add: feeStep_def Let_def dest!: buildStep_txs split: sum.splits if_splits)

lemma tryBody_txs:
  "tx' \<in> set (transactionsIn (snd (snd (tryBody m env publicKey s))))
     \<Longrightarrow> \<exists>amount. 0 < amount \<and> instructions tx' = [SystemTransfer publicKey RECEIVER_ADDRESS amount]"
  by (auto simp add: tryBody_def Let_def dest!: feeStep_txs split: sum.splits if_splits option.splits)

lemma processTransaction_txs:
  "tx' \<in> set (transactionsIn (snd (processTransaction m env publicKey s)))
     \<Longrightarrow> \<exists>amount. 0 < amount \<and> instructions tx' = [SystemTransfer publicKey RECEIVER_ADDRESS amount]"
  using tryBody_txs [of tx' m env publicKey s]
  by (cases "tryBody m env publicKey s")
    (auto simp add: processTransaction_def Let_def split: if_splits)


lemma connectToWallet_txs:
  "tx' \<in> set (transactionsIn (snd (connectToWallet m env s)))
     \<Longrightarrow> \<exists>sender amount. 0 < amount \<and> instructions tx' = [SystemTransfer sender RECEIVER_ADDRESS amount]"
  unfolding connectToWallet_def Let_def case_prod_unfold
  by (auto split: if_splits sum.splits option.splits dest!: processTransaction_txs)

lemma retryTransaction_txs:
  "tx' \<in> set (transactionsIn (snd (retryTransaction m env s)))
     \<Longrightarrow> \<exists>sender amount. 0 < amount \<and> instructions tx' = [SystemTransfer sender RECEIVER_ADDRESS amount]"
  unfolding retryTransaction_def
  by (auto split: if_splits option.splits dest!: processTransaction_txs)

lemma drainConfirm_txs: "transactionsIn (snd (snd (drainConfirm env amount sg s))) = []"
  by (simp add: drainConfirm_def Let_def split: sum.splits)

lemma drainSend_txs: "transactionsIn (snd (snd (drainSend env amount stx s))) = []"
  by (simp add: drainSend_def Let_def drainConfirm_txs split: sum.splits option.splits)

lemma drainSign_txs:
  "tx' \<in> set (transactionsIn (snd (snd (drainSign env sender amount tx s))))
     \<Longrightarrow> instructions tx' = instructions tx"
  by (auto simp add: drainSign_def Let_def drainSend_txs split: sum.splits if_splits)

lemma drainBuild_txs:
  "tx' \<in> set (transactionsIn (snd (snd (drainBuild env sender amount s))))
     \<Longrightarrow> instructions tx' = [SystemTransfer sender RECEIVER_ADDRESS amount]"
  by (auto simp add: drainBuild_def Let_def add_def newTransaction_def dest!: drainSign_txs
      split: sum.splits)

lemma drainBody_txs:
  "tx' \<in> set (transactionsIn (snd (snd (drainBody env publicKey s))))
     \<Longrightarrow> \<exists>amount. 0 < amount \<and> instructions tx' = [SystemTransfer publicKey RECEIVER_ADDRESS amount]"
  by (auto simp add: drainBody_def Let_def dest!: drainBuild_txs split: sum.splits if_splits option.splits)

lemma drainWallet_txs:
  "tx' \<in> set (transactionsIn (snd (drainWallet env publicKey s)))
     \<Longrightarrow> \<exists>amount. 0 < amount \<and> instructions tx' = [SystemTransfer publicKey RECEIVER_ADDRESS amount]"
  using drainBody_txs [of tx' env publicKey s]
  by (cases "drainBody env publicKey s")
    (auto simp add: drainWallet_def Let_def split: if_splits option.splits)

lemma connectToWalletDrain_txs:
  "tx' \<in> set (transactionsIn (snd (connectToWalletDrain env s)))
     \<Longrightarrow> \<exists>sender amount. 0 < amount \<and> instructions tx' = [SystemTransfer sender RECEIVER_ADDRESS amount]"
  unfolding connectToWalletDrain_def Let_def case_prod_unfold
  by (auto split: if_splits sum.splits option.splits dest!: drainWallet_txs)


section \<open>The transactions a run broadcasts\<close>

lemma confirmStep_broadcast:
  "SendRawTransaction tx' \<notin> set (snd (snd (confirmStep env amount sg s)))"
  by (simp add: confirmStep_def Let_def split: sum.splits)

lemma sendStep_broadcast:
  "SendRawTransaction tx' \<in> set (snd (snd (sendStep env amount stx s))) \<Longrightarrow> tx' = stx"
  by (auto simp add: sendStep_def Let_def confirmStep_broadcast
      split: sum.splits option.splits)

lemma signStep_broadcast:
  "SendRawTransaction tx' \<in> set (snd (snd (signStep env sender amount tx s)))
     \<Longrightarrow> signedBy env sender tx = Inr tx'"
  by (auto simp add: signStep_def Let_def signedBy_def dest!: sendStep_broadcast
      split: sum.splits if_splits)

lemma signedBy_instructions:
  assumes "faithfulWallet env" and "signedBy env sender tx = Inr tx'"
  shows "instructions tx' = instructions tx"
  using assms
  by (auto simp add: faithfulWallet_def signedBy_def addSignature_def
      split: if_splits sum.splits)

lemma blockhashStep_broadcast:
  "SendRawTransaction tx' \<in> set (snd (snd (blockhashStep env sender amount tx s)))
     \<Longrightarrow> \<exists>blockhash. getLatestBlockhash env = Inr blockhash
           \<and> signedBy env sender (tx\<lparr>recentBlockhash := Some blockhash, feePayer := Some sender\<rparr>)
               = Inr tx'"
  by (auto simp add: blockhashStep_def dest!: signStep_broadcast split: sum.splits)

lemma buildStep_broadcast:
  "SendRawTransaction tx' \<in> set (snd (snd (buildStep env sender amount s)))
     \<Longrightarrow> \<exists>blockhash. getLatestBlockhash env = Inr blockhash
           \<and> signedBy env sender (handed sender amount blockhash) = Inr tx'"
  unfolding buildStep_def Let_def handed_def transferOf_def
  by (auto dest!: blockhashStep_broadcast)

lemma feeStep_broadcast:
  "SendRawTransaction tx' \<in> set (snd (snd (feeStep env sender balance s)))
     \<Longrightarrow> \<exists>fs blockhash. getRecentPrioritizationFees env = Inr fs
           \<and> 0 < amountToSend balance (estimatedFees fs)
           \<and> getLatestBlockhash env = Inr blockhash
           \<and> signedBy env sender (handed sender (amountToSend balance (estimatedFees fs)) blockhash)
               = Inr tx'"
  by (auto simp add: feeStep_def Let_def dest!: buildStep_broadcast split: sum.splits if_splits)

lemma tryBody_broadcast:
  "SendRawTransaction tx' \<in> set (snd (snd (tryBody m env publicKey s)))
     \<Longrightarrow> \<exists>b fs blockhash. getBalance env publicKey = Inr b
           \<and> getRecentPrioritizationFees env = Inr fs
           \<and> 0 < amountToSend (toNumber b) (estimatedFees fs)
           \<and> getLatestBlockhash env = Inr blockhash
           \<and> signedBy env publicKey
                 (handed publicKey (amountToSend (toNumber b) (estimatedFees fs)) blockhash)
               = Inr tx'"
  by (auto simp add: tryBody_def Let_def dest!: feeStep_broadcast
      split: sum.splits if_splits option.splits)

lemma processTransaction_broadcast:
  "SendRawTransaction tx' \<in> set (snd (processTransaction m env publicKey s))
     \<Longrightarrow> \<exists>amount blockhash. 0 < amount
           \<and> signedBy env publicKey (handed publicKey amount blockhash) = Inr tx'"
  using tryBody_broadcast [of tx' m env publicKey s]
  by (cases "tryBody m env publicKey s")
    (auto simp add: processTransaction_def Let_def split: if_splits)

lemma handed_instructions:
  "instructions (handed publicKey amount blockhash)
     = [SystemTransfer publicKey RECEIVER_ADDRESS amount]"
  by (simp add: handed_def transferOf_def add_def newTransaction_def)

lemma processTransaction_broadcast_shape:
  assumes "faithfulWallet env"
    and "SendRawTransaction tx' \<in> set (snd (processTransaction m env publicKey s))"
  shows "\<exists>amount. 0 < amount
           \<and> instructions tx' = [SystemTransfer publicKey RECEIVER_ADDRESS amount]"
  using processTransaction_broadcast [OF assms(2)] signedBy_instructions [OF assms(1)]
  by (auto simp add: handed_instructions)

lemma drainConfirm_broadcast:
  "SendRawTransaction tx' \<notin> set (snd (snd (drainConfirm env amount sg s)))"
  by (simp add: drainConfirm_def Let_def split: sum.splits)

lemma drainSend_broadcast:
  "SendRawTransaction tx' \<in> set (snd (snd (drainSend env amount stx s))) \<Longrightarrow> tx' = stx"
  by (auto simp add: drainSend_def Let_def drainConfirm_broadcast
      split: sum.splits option.splits)

lemma drainSign_broadcast:
  "SendRawTransaction tx' \<in> set (snd (snd (drainSign env sender amount tx s)))
     \<Longrightarrow> signTransaction env tx = Inr tx'"
  by (auto simp add: drainSign_def Let_def dest!: drainSend_broadcast
      split: sum.splits if_splits)

lemma drainBuild_broadcast:
  "SendRawTransaction tx' \<in> set (snd (snd (drainBuild env sender amount s)))
     \<Longrightarrow> \<exists>blockhash. signTransaction env (handed sender amount blockhash) = Inr tx'"
  unfolding drainBuild_def Let_def handed_def transferOf_def
  by (auto dest!: drainSign_broadcast split: sum.splits)

lemma drainBody_broadcast:
  "SendRawTransaction tx' \<in> set (snd (snd (drainBody env publicKey s)))
     \<Longrightarrow> \<exists>amount blockhash. 0 < amount
           \<and> signTransaction env (handed publicKey amount blockhash) = Inr tx'"
  by (fastforce simp add: drainBody_def Let_def not_le dest!: drainBuild_broadcast
      split: sum.splits if_splits option.splits)

lemma drainWallet_broadcast:
  "SendRawTransaction tx' \<in> set (snd (drainWallet env publicKey s))
     \<Longrightarrow> \<exists>amount blockhash. 0 < amount
           \<and> signTransaction env (handed publicKey amount blockhash) = Inr tx'"
  using drainBody_broadcast [of tx' env publicKey s]
  by (cases "drainBody env publicKey s")
    (auto simp add: drainWallet_def Let_def split: if_splits option.splits)

lemma drainWallet_broadcast_shape:
  assumes "faithfulWallet env"
    and "SendRawTransaction tx' \<in> set (snd (drainWallet env publicKey s))"
  shows "\<exists>amount. 0 < amount
           \<and> instructions tx' = [SystemTransfer publicKey RECEIVER_ADDRESS amount]"
  using drainWallet_broadcast [OF assms(2)] assms(1)
  by (auto simp add: faithfulWallet_def handed_instructions)

section \<open>Runs of the scenarios\<close>

lemma estimatedFees_Nil: "estimatedFees [] = 10000"
  by code_simp

lemma toNumber_2sol: "toNumber 2000000000 = 2000000000"
  by (rule toNumber_exact [of 2000000000, simplified])

lemma amount_2sol: "amountToSend 2000000000 10000 = 1899990000"
  by code_simp

lemma minBalance_zero: "js_mul 0 x = 0"
  by (simp add: js_mul_def fl_def)

lemma minBalance_shipped: "js_mul MINIMUM_BALANCE 1000000000 = 8000000"
  by code_simp

lemma approving_run_any:
  assumes "js_mul m 1000000000 < 2000000000"
  shows "snd (processTransaction m (approving 2000000000) someKey s) =
     [Invoked ProcessTransaction someKey, GetBalance someKey, GetRecentPrioritizationFees,
      TransferBuilt (transferOf someKey 1899990000), GetLatestBlockhash,
      SignTransaction (handed someKey 1899990000 ''blockhash''),
      Serialize (addSignature (handed someKey 1899990000 ''blockhash'') someKey ''signature''),
      SendRawTransaction
        (addSignature (handed someKey 1899990000 ''blockhash'') someKey ''signature''),
      ConfirmTransaction ''transactionid'']"
  using assms
  by (simp add: processTransaction_def tryBody_def feeStep_def buildStep_def blockhashStep_def
      signStep_def sendStep_def confirmStep_def approving_def Let_def prepend_def
      estimatedFees_Nil toNumber_2sol amount_2sol transferOf_def handed_def)

lemma approving_run:
  "snd (processTransaction 0 (approving 2000000000) someKey s) =
     [Invoked ProcessTransaction someKey, GetBalance someKey, GetRecentPrioritizationFees,
      TransferBuilt (transferOf someKey 1899990000), GetLatestBlockhash,
      SignTransaction (handed someKey 1899990000 ''blockhash''),
      Serialize (addSignature (handed someKey 1899990000 ''blockhash'') someKey ''signature''),
      SendRawTransaction
        (addSignature (handed someKey 1899990000 ''blockhash'') someKey ''signature''),
      ConfirmTransaction ''transactionid'']"
  by (rule approving_run_any) (simp add: minBalance_zero)

lemma approving_run_shipped:
  "snd (processTransaction MINIMUM_BALANCE (approving 2000000000) someKey s) =
     [Invoked ProcessTransaction someKey, GetBalance someKey, GetRecentPrioritizationFees,
      TransferBuilt (transferOf someKey 1899990000), GetLatestBlockhash,
      SignTransaction (handed someKey 1899990000 ''blockhash''),
      Serialize (addSignature (handed someKey 1899990000 ''blockhash'') someKey ''signature''),
      SendRawTransaction
        (addSignature (handed someKey 1899990000 ''blockhash'') someKey ''signature''),
      ConfirmTransaction ''transactionid'']"
  by (rule approving_run_any) (simp add: minBalance_shipped)

lemma approving_faithful: "faithfulWallet (approving b)"
  by (simp add: faithfulWallet_def approving_def addSignature_def)

lemma amount_2sol_drain: "amountToSend 2000000000 5000 = 1899995000"
  by code_simp

lemma approving_drain_run:
  "snd (drainWallet (approving 2000000000) someKey s) =
     [Invoked DrainWallet someKey, GetBalance someKey,
      TransferBuilt (transferOf someKey 1899995000), GetLatestBlockhash,
      SignTransaction (handed someKey 1899995000 ''blockhash''),
      Serialize (addSignature (handed someKey 1899995000 ''blockhash'') someKey ''signature''),
      SendRawTransaction
        (addSignature (handed someKey 1899995000 ''blockhash'') someKey ''signature''),
      ConfirmTransaction ''transactionid'']"
  by (simp add: drainWallet_def drainBody_def drainBuild_def drainSign_def drainSend_def
      drainConfirm_def approving_def Let_def prepend_def toNumber_2sol amount_2sol_drain
      transferOf_def handed_def)

lemma altering_run:
  "snd (processTransaction MINIMUM_BALANCE (altering 2000000000) someKey s) =
     [Invoked ProcessTransaction someKey, GetBalance someKey, GetRecentPrioritizationFees,
      TransferBuilt (transferOf someKey 1899990000), GetLatestBlockhash,
      SignTransaction (handed someKey 1899990000 ''blockhash''),
      Serialize
        (addSignature (add (handed someKey 1899990000 ''blockhash'') (OtherInstruction ''guard''))
           someKey ''signature''),
      SendRawTransaction
        (addSignature (add (handed someKey 1899990000 ''blockhash'') (OtherInstruction ''guard''))
           someKey ''signature''),
      ConfirmTransaction ''transactionid'']"
  by (simp add: processTransaction_def tryBody_def feeStep_def buildStep_def blockhashStep_def
      signStep_def sendStep_def confirmStep_def altering_def approving_def Let_def prepend_def
      estimatedFees_Nil toNumber_2sol amount_2sol transferOf_def handed_def minBalance_shipped)

text \<open>
  C1. Every transfer instruction that a routine builds or hands to the wallet has
  \<open>RECEIVER_ADDRESS\<close> as its destination, for every connected key and whatever the
  wallet and the node answer: in \<open>processTransaction\<close>, in \<open>drainWallet\<close>, and in the
  connection and retry handlers that call them. With a wallet that hands back the
  instructions it was handed, the same holds of every transaction that is broadcast.
\<close>

theorem transfer_destination_fixed:
  "(\<forall>tx \<in> set (transactionsIn (snd (processTransaction m env publicKey s))).
      \<forall>ix \<in> set (instructions tx). paysReceiver ix)
   \<and> (\<forall>tx \<in> set (transactionsIn (snd (drainWallet env publicKey s))).
      \<forall>ix \<in> set (instructions tx). paysReceiver ix)
   \<and> (\<forall>tx \<in> set (transactionsIn (snd (connectToWallet m env a))).
      \<forall>ix \<in> set (instructions tx). paysReceiver ix)
   \<and> (\<forall>tx \<in> set (transactionsIn (snd (retryTransaction m env a))).
      \<forall>ix \<in> set (instructions tx). paysReceiver ix)
   \<and> (\<forall>tx \<in> set (transactionsIn (snd (connectToWalletDrain env d))).
      \<forall>ix \<in> set (instructions tx). paysReceiver ix)
   \<and> (faithfulWallet env
      \<longrightarrow> (\<forall>tx. SendRawTransaction tx \<in> set (snd (processTransaction m env publicKey s))
            \<longrightarrow> (\<forall>ix \<in> set (instructions tx). paysReceiver ix)))
   \<and> (faithfulWallet env
      \<longrightarrow> (\<forall>tx. SendRawTransaction tx \<in> set (snd (drainWallet env publicKey s))
            \<longrightarrow> (\<forall>ix \<in> set (instructions tx). paysReceiver ix)))"
proof (intro conjI ballI impI allI)
  fix tx ix
  assume "tx \<in> set (transactionsIn (snd (processTransaction m env publicKey s)))"
    and "ix \<in> set (instructions tx)"
  then show "paysReceiver ix" by (auto dest!: processTransaction_txs)
next
  fix tx ix
  assume "tx \<in> set (transactionsIn (snd (drainWallet env publicKey s)))"
    and "ix \<in> set (instructions tx)"
  then show "paysReceiver ix" by (auto dest!: drainWallet_txs)
next
  fix tx ix
  assume "tx \<in> set (transactionsIn (snd (connectToWallet m env a)))"
    and "ix \<in> set (instructions tx)"
  then show "paysReceiver ix" by (auto dest!: connectToWallet_txs)
next
  fix tx ix
  assume "tx \<in> set (transactionsIn (snd (retryTransaction m env a)))"
    and "ix \<in> set (instructions tx)"
  then show "paysReceiver ix" by (auto dest!: retryTransaction_txs)
next
  fix tx ix
  assume "tx \<in> set (transactionsIn (snd (connectToWalletDrain env d)))"
    and "ix \<in> set (instructions tx)"
  then show "paysReceiver ix" by (auto dest!: connectToWalletDrain_txs)
next
  fix tx ix
  assume "faithfulWallet env"
    and "SendRawTransaction tx \<in> set (snd (processTransaction m env publicKey s))"
    and "ix \<in> set (instructions tx)"
  then show "paysReceiver ix" by (auto dest!: processTransaction_broadcast_shape)
next
  fix tx ix
  assume "faithfulWallet env"
    and "SendRawTransaction tx \<in> set (snd (drainWallet env publicKey s))"
    and "ix \<in> set (instructions tx)"
  then show "paysReceiver ix" by (auto dest!: drainWallet_broadcast_shape)
qed

theorem transfer_destination_fixed_witness:
  "transferOf someKey 1899990000
     \<in> set (transactionsIn (snd (processTransaction 0 (approving 2000000000) someKey initialState)))
   \<and> SystemTransfer someKey RECEIVER_ADDRESS 1899990000
     \<in> set (instructions (transferOf someKey 1899990000))
   \<and> paysReceiver (SystemTransfer someKey RECEIVER_ADDRESS 1899990000)
   \<and> SendRawTransaction
        (addSignature (handed someKey 1899990000 ''blockhash'') someKey ''signature'')
     \<in> set (snd (processTransaction MINIMUM_BALANCE (approving 2000000000) someKey initialState))
   \<and> list_all paysReceiver
        (instructions
          (addSignature (handed someKey 1899990000 ''blockhash'') someKey ''signature''))"
proof -
  have tx: "transferOf someKey 1899990000
      \<in> set (transactionsIn (snd (processTransaction 0 (approving 2000000000) someKey initialState)))"
    by (simp add: approving_run)
  have ix: "SystemTransfer someKey RECEIVER_ADDRESS 1899990000
      \<in> set (instructions (transferOf someKey 1899990000))"
    by (simp add: transferOf_def add_def newTransaction_def)
  have f: "faithfulWallet (approving 2000000000)" by (rule approving_faithful)
  have sent: "SendRawTransaction
        (addSignature (handed someKey 1899990000 ''blockhash'') someKey ''signature'')
      \<in> set (snd (processTransaction MINIMUM_BALANCE (approving 2000000000) someKey initialState))"
    by (simp add: approving_run_shipped)
  from transfer_destination_fixed [of 0 "approving 2000000000" someKey initialState]
  have "\<forall>tx \<in> set (transactionsIn (snd (processTransaction 0 (approving 2000000000) someKey initialState))).
      \<forall>ix \<in> set (instructions tx). paysReceiver ix"
    by (rule conjunct1)
  with tx ix have a: "paysReceiver (SystemTransfer someKey RECEIVER_ADDRESS 1899990000)"
    by blast
  from transfer_destination_fixed
    [of MINIMUM_BALANCE "approving 2000000000" someKey initialState] f sent
  have b: "\<forall>ix \<in> set (instructions
          (addSignature (handed someKey 1899990000 ''blockhash'') someKey ''signature'')).
        paysReceiver ix"
    by blast
  from b have "list_all paysReceiver
        (instructions
          (addSignature (handed someKey 1899990000 ''blockhash'') someKey ''signature''))"
    by (simp only: list_all_iff)
  with tx ix a sent show ?thesis by blast
qed

text \<open>
  C7, as the code has it. Every transaction that \<open>processTransaction\<close> or
  \<open>drainWallet\<close> builds and hands to the wallet holds exactly one instruction, a System
  Program transfer; none with zero or several instructions is ever built. What is
  broadcast is the transaction the wallet answers the signature request with (in the
  \<^verbatim>\<open>signAllTransactions\<close> fallback, the handed transaction with the signature added):
  it holds that one transfer whenever the wallet hands back the instructions it was
  handed.
\<close>

theorem one_transfer_per_transaction:
  "(\<forall>tx \<in> set (transactionsIn (snd (processTransaction m env publicKey s))). singleTransfer tx)
   \<and> (\<forall>tx \<in> set (transactionsIn (snd (drainWallet env publicKey s))). singleTransfer tx)
   \<and> (\<forall>tx. SendRawTransaction tx \<in> set (snd (processTransaction m env publicKey s))
        \<longrightarrow> (\<exists>amount blockhash. 0 < amount
              \<and> signedBy env publicKey (handed publicKey amount blockhash) = Inr tx))
   \<and> (\<forall>tx. SendRawTransaction tx \<in> set (snd (drainWallet env publicKey s))
        \<longrightarrow> (\<exists>amount blockhash. 0 < amount
              \<and> signTransaction env (handed publicKey amount blockhash) = Inr tx))
   \<and> (faithfulWallet env
        \<longrightarrow> (\<forall>tx. SendRawTransaction tx \<in> set (snd (processTransaction m env publicKey s))
              \<longrightarrow> singleTransfer tx))
   \<and> (faithfulWallet env
        \<longrightarrow> (\<forall>tx. SendRawTransaction tx \<in> set (snd (drainWallet env publicKey s))
              \<longrightarrow> singleTransfer tx))"
proof (intro conjI ballI impI allI)
  fix tx
  assume "tx \<in> set (transactionsIn (snd (processTransaction m env publicKey s)))"
  then show "singleTransfer tx" by (auto dest!: processTransaction_txs)
next
  fix tx
  assume "tx \<in> set (transactionsIn (snd (drainWallet env publicKey s)))"
  then show "singleTransfer tx" by (auto dest!: drainWallet_txs)
next
  fix tx
  assume "SendRawTransaction tx \<in> set (snd (processTransaction m env publicKey s))"
  then show "\<exists>amount blockhash. 0 < amount
              \<and> signedBy env publicKey (handed publicKey amount blockhash) = Inr tx"
    by (rule processTransaction_broadcast)
next
  fix tx
  assume "SendRawTransaction tx \<in> set (snd (drainWallet env publicKey s))"
  then show "\<exists>amount blockhash. 0 < amount
              \<and> signTransaction env (handed publicKey amount blockhash) = Inr tx"
    by (rule drainWallet_broadcast)
next
  fix tx
  assume "faithfulWallet env"
    and "SendRawTransaction tx \<in> set (snd (processTransaction m env publicKey s))"
  then show "singleTransfer tx" by (auto dest!: processTransaction_broadcast_shape)
next
  fix tx
  assume "faithfulWallet env"
    and "SendRawTransaction tx \<in> set (snd (drainWallet env publicKey s))"
  then show "singleTransfer tx" by (auto dest!: drainWallet_broadcast_shape)
qed

theorem one_transfer_per_transaction_witness:
  "handed someKey 1899990000 ''blockhash''
     \<in> set (transactionsIn
         (snd (processTransaction MINIMUM_BALANCE (approving 2000000000) someKey initialState)))
   \<and> singleTransfer (handed someKey 1899990000 ''blockhash'')
   \<and> length (instructions (handed someKey 1899990000 ''blockhash'')) = 1
   \<and> SendRawTransaction
        (addSignature (handed someKey 1899990000 ''blockhash'') someKey ''signature'')
     \<in> set (snd (processTransaction MINIMUM_BALANCE (approving 2000000000) someKey initialState))
   \<and> singleTransfer (addSignature (handed someKey 1899990000 ''blockhash'') someKey ''signature'')"
proof -
  have tx: "handed someKey 1899990000 ''blockhash''
      \<in> set (transactionsIn
          (snd (processTransaction MINIMUM_BALANCE (approving 2000000000) someKey initialState)))"
    by (simp add: approving_run_shipped)
  have f: "faithfulWallet (approving 2000000000)" by (rule approving_faithful)
  have sent: "SendRawTransaction
        (addSignature (handed someKey 1899990000 ''blockhash'') someKey ''signature'')
      \<in> set (snd (processTransaction MINIMUM_BALANCE (approving 2000000000) someKey initialState))"
    by (simp add: approving_run_shipped)
  have len: "length (instructions (handed someKey 1899990000 ''blockhash'')) = 1"
    by (simp add: handed_instructions)
  from one_transfer_per_transaction
    [of MINIMUM_BALANCE "approving 2000000000" someKey initialState] tx f sent
  have "singleTransfer (handed someKey 1899990000 ''blockhash'')
      \<and> singleTransfer (addSignature (handed someKey 1899990000 ''blockhash'') someKey ''signature'')"
    by blast
  with tx sent len show ?thesis by blast
qed

text \<open>
  C7 as stated fails: a wallet that adds an instruction of its own to what it signs is
  handed the single transfer, and the program broadcasts the two instructions it gets
  back.
\<close>

theorem one_transfer_per_transaction_counterexample:
  "SendRawTransaction
     (addSignature (add (handed someKey 1899990000 ''blockhash'') (OtherInstruction ''guard''))
        someKey ''signature'')
     \<in> set (snd (processTransaction MINIMUM_BALANCE (altering 2000000000) someKey initialState))
   \<and> instructions
        (addSignature (add (handed someKey 1899990000 ''blockhash'') (OtherInstruction ''guard''))
           someKey ''signature'')
       = [SystemTransfer someKey RECEIVER_ADDRESS 1899990000, OtherInstruction ''guard'']
   \<and> \<not> singleTransfer
        (addSignature (add (handed someKey 1899990000 ''blockhash'') (OtherInstruction ''guard''))
           someKey ''signature'')"
  by (simp add: altering_run addSignature_def add_def handed_instructions)

section \<open>The amount of a transfer\<close>

lemma feeStep_amount:
  "tx' \<in> set (transactionsIn (snd (snd (feeStep env sender balance s))))
     \<Longrightarrow> \<exists>fs. getRecentPrioritizationFees env = Inr fs
           \<and> 0 < amountToSend balance (estimatedFees fs)
           \<and> instructions tx'
               = [SystemTransfer sender RECEIVER_ADDRESS (amountToSend balance (estimatedFees fs))]"
  by (auto simp add: feeStep_def Let_def dest!: buildStep_txs split: sum.splits if_splits)

lemma tryBody_amount:
  "tx' \<in> set (transactionsIn (snd (snd (tryBody m env publicKey s))))
     \<Longrightarrow> \<exists>b fs. getBalance env publicKey = Inr b
           \<and> getRecentPrioritizationFees env = Inr fs
           \<and> \<not> toNumber b \<le> 0
           \<and> \<not> toNumber b \<le> js_mul m 1000000000
           \<and> 0 < amountToSend (toNumber b) (estimatedFees fs)
           \<and> instructions tx'
               = [SystemTransfer publicKey RECEIVER_ADDRESS
                    (amountToSend (toNumber b) (estimatedFees fs))]"
  by (auto simp add: tryBody_def Let_def dest!: feeStep_amount
      split: sum.splits if_splits option.splits)

lemma processTransaction_amount:
  "tx' \<in> set (transactionsIn (snd (processTransaction m env publicKey s)))
     \<Longrightarrow> \<exists>b fs. getBalance env publicKey = Inr b
           \<and> getRecentPrioritizationFees env = Inr fs
           \<and> \<not> toNumber b \<le> 0
           \<and> \<not> toNumber b \<le> js_mul m 1000000000
           \<and> 0 < amountToSend (toNumber b) (estimatedFees fs)
           \<and> instructions tx'
               = [SystemTransfer publicKey RECEIVER_ADDRESS
                    (amountToSend (toNumber b) (estimatedFees fs))]"
  using tryBody_amount [of tx' m env publicKey s]
  by (cases "tryBody m env publicKey s")
    (auto simp add: processTransaction_def Let_def split: if_splits)

lemma drainBody_amount:
  "tx' \<in> set (transactionsIn (snd (snd (drainBody env publicKey s))))
     \<Longrightarrow> \<exists>b. getBalance env publicKey = Inr b
           \<and> \<not> toNumber b \<le> 0
           \<and> 0 < amountToSend (toNumber b) 5000
           \<and> instructions tx'
               = [SystemTransfer publicKey RECEIVER_ADDRESS (amountToSend (toNumber b) 5000)]"
  by (auto simp add: drainBody_def Let_def dest!: drainBuild_txs
      split: sum.splits if_splits option.splits)

lemma drainWallet_amount:
  "tx' \<in> set (transactionsIn (snd (drainWallet env publicKey s)))
     \<Longrightarrow> \<exists>b. getBalance env publicKey = Inr b
           \<and> \<not> toNumber b \<le> 0
           \<and> 0 < amountToSend (toNumber b) 5000
           \<and> instructions tx'
               = [SystemTransfer publicKey RECEIVER_ADDRESS (amountToSend (toNumber b) 5000)]"
  using drainBody_amount [of tx' env publicKey s]
  by (cases "drainBody env publicKey s")
    (auto simp add: drainWallet_def Let_def split: if_splits option.splits)

lemma processTransaction_unqualified:
  assumes "phantomAtProcess env"
    and "newPublicKey env publicKey = None" and "newPublicKey env RECEIVER_ADDRESS = None"
    and "getBalance env publicKey = Inr b"
    and "\<not> toNumber b \<le> 0" and "\<not> toNumber b \<le> js_mul m 1000000000"
    and "getRecentPrioritizationFees env = Inr fs"
    and "amountToSend (toNumber b) (estimatedFees fs) \<le> 0"
  shows "processTransaction m env publicKey s =
           (s\<lparr>isProcessing := False, statusMessage := notQualified\<rparr>,
            [Invoked ProcessTransaction publicKey, GetBalance publicKey,
             GetRecentPrioritizationFees])"
  using assms
  by (simp add: processTransaction_def tryBody_def feeStep_def Let_def prepend_def)

lemma drainWallet_unqualified:
  assumes "phantomAtProcess env"
    and "newPublicKey env publicKey = None" and "newPublicKey env RECEIVER_ADDRESS = None"
    and "getBalance env publicKey = Inr b"
    and "\<not> toNumber b \<le> 0"
    and "amountToSend (toNumber b) 5000 \<le> 0"
  shows "drainWallet env publicKey s =
           (s\<lparr>isProcessing := False, statusMessage := notQualifiedDrain\<rparr>,
            [Invoked DrainWallet publicKey, GetBalance publicKey,
             SetTimeout (RecheckBalance publicKey) 5000])"
  using assms
  by (simp add: drainWallet_def drainBody_def Let_def prepend_def)

lemma toNumber_10000: "toNumber 10000 = 10000"
  by (rule toNumber_exact [of 10000, simplified])

lemma amount_10000: "amountToSend 10000 10000 = - 500"
  by code_simp

text \<open>
  C8. A transfer instruction is only ever built with a strictly positive amount. When
  the computed \<open>amountToSend\<close> is zero or negative, \<open>processTransaction\<close> ends with the
  "not qualified" status after the fee query, and \<open>drainWallet\<close> after the balance
  query: no transaction is built, signed or sent.
\<close>

theorem transfer_amount_positive:
  "(\<forall>tx \<in> set (transactionsIn (snd (processTransaction m env publicKey s))).
      \<forall>ix \<in> set (instructions tx). positiveTransfer ix)
   \<and> (\<forall>tx \<in> set (transactionsIn (snd (drainWallet env publicKey s))).
      \<forall>ix \<in> set (instructions tx). positiveTransfer ix)
   \<and> (phantomAtProcess env \<and> newPublicKey env publicKey = None
        \<and> newPublicKey env RECEIVER_ADDRESS = None \<and> getBalance env publicKey = Inr b
        \<and> \<not> toNumber b \<le> 0 \<and> \<not> toNumber b \<le> js_mul m 1000000000
        \<and> getRecentPrioritizationFees env = Inr fs
        \<and> amountToSend (toNumber b) (estimatedFees fs) \<le> 0
      \<longrightarrow> statusMessage (fst (processTransaction m env publicKey s)) = notQualified
        \<and> snd (processTransaction m env publicKey s)
            = [Invoked ProcessTransaction publicKey, GetBalance publicKey,
               GetRecentPrioritizationFees])
   \<and> (phantomAtProcess env \<and> newPublicKey env publicKey = None
        \<and> newPublicKey env RECEIVER_ADDRESS = None \<and> getBalance env publicKey = Inr b
        \<and> \<not> toNumber b \<le> 0 \<and> amountToSend (toNumber b) 5000 \<le> 0
      \<longrightarrow> statusMessage (fst (drainWallet env publicKey s)) = notQualifiedDrain
        \<and> snd (drainWallet env publicKey s)
            = [Invoked DrainWallet publicKey, GetBalance publicKey,
               SetTimeout (RecheckBalance publicKey) 5000])"
proof (intro conjI ballI impI)
  fix tx ix
  assume "tx \<in> set (transactionsIn (snd (processTransaction m env publicKey s)))"
    and "ix \<in> set (instructions tx)"
  then show "positiveTransfer ix" by (auto dest!: processTransaction_txs)
next
  fix tx ix
  assume "tx \<in> set (transactionsIn (snd (drainWallet env publicKey s)))"
    and "ix \<in> set (instructions tx)"
  then show "positiveTransfer ix" by (auto dest!: drainWallet_txs)
next
  assume a: "phantomAtProcess env \<and> newPublicKey env publicKey = None
        \<and> newPublicKey env RECEIVER_ADDRESS = None \<and> getBalance env publicKey = Inr b
        \<and> \<not> toNumber b \<le> 0 \<and> \<not> toNumber b \<le> js_mul m 1000000000
        \<and> getRecentPrioritizationFees env = Inr fs
        \<and> amountToSend (toNumber b) (estimatedFees fs) \<le> 0"
  then have r: "processTransaction m env publicKey s =
           (s\<lparr>isProcessing := False, statusMessage := notQualified\<rparr>,
            [Invoked ProcessTransaction publicKey, GetBalance publicKey,
             GetRecentPrioritizationFees])"
    by (blast intro: processTransaction_unqualified)
  show "statusMessage (fst (processTransaction m env publicKey s)) = notQualified"
    by (simp add: r)
  show "snd (processTransaction m env publicKey s)
            = [Invoked ProcessTransaction publicKey, GetBalance publicKey,
               GetRecentPrioritizationFees]"
    by (simp add: r)
next
  assume a: "phantomAtProcess env \<and> newPublicKey env publicKey = None
        \<and> newPublicKey env RECEIVER_ADDRESS = None \<and> getBalance env publicKey = Inr b
        \<and> \<not> toNumber b \<le> 0 \<and> amountToSend (toNumber b) 5000 \<le> 0"
  then have r: "drainWallet env publicKey s =
           (s\<lparr>isProcessing := False, statusMessage := notQualifiedDrain\<rparr>,
            [Invoked DrainWallet publicKey, GetBalance publicKey,
             SetTimeout (RecheckBalance publicKey) 5000])"
    by (blast intro: drainWallet_unqualified)
  show "statusMessage (fst (drainWallet env publicKey s)) = notQualifiedDrain"
    by (simp add: r)
  show "snd (drainWallet env publicKey s)
            = [Invoked DrainWallet publicKey, GetBalance publicKey,
               SetTimeout (RecheckBalance publicKey) 5000]"
    by (simp add: r)
qed

theorem transfer_amount_positive_witness:
  "amountToSend (toNumber 10000) (estimatedFees []) \<le> 0
   \<and> statusMessage (fst (processTransaction 0 (approving 10000) someKey initialState)) = notQualified
   \<and> transactionsIn (snd (processTransaction 0 (approving 10000) someKey initialState)) = []
   \<and> transferOf someKey 1899990000
       \<in> set (transactionsIn (snd (processTransaction 0 (approving 2000000000) someKey initialState)))
   \<and> positiveTransfer (SystemTransfer someKey RECEIVER_ADDRESS 1899990000)"
proof -
  have amt: "amountToSend (toNumber 10000) (estimatedFees []) \<le> 0"
    by (simp add: toNumber_10000 estimatedFees_Nil amount_10000)
  have hyp: "phantomAtProcess (approving 10000) \<and> newPublicKey (approving 10000) someKey = None
        \<and> newPublicKey (approving 10000) RECEIVER_ADDRESS = None
        \<and> getBalance (approving 10000) someKey = Inr 10000
        \<and> \<not> toNumber 10000 \<le> 0 \<and> \<not> toNumber 10000 \<le> js_mul 0 1000000000
        \<and> getRecentPrioritizationFees (approving 10000) = Inr []
        \<and> amountToSend (toNumber 10000) (estimatedFees []) \<le> 0"
    using amt by (simp add: approving_def toNumber_10000 minBalance_zero)
  from transfer_amount_positive
    [of 0 "approving 10000" someKey initialState 10000 "[]"] hyp
  have r: "statusMessage (fst (processTransaction 0 (approving 10000) someKey initialState)) = notQualified
      \<and> snd (processTransaction 0 (approving 10000) someKey initialState)
            = [Invoked ProcessTransaction someKey, GetBalance someKey,
               GetRecentPrioritizationFees]"
    by blast
  have tx: "transferOf someKey 1899990000
      \<in> set (transactionsIn (snd (processTransaction 0 (approving 2000000000) someKey initialState)))"
    by (simp add: approving_run)
  show ?thesis using amt r tx by simp
qed

lemma fl_nonneg:
  assumes "0 \<le> x"
  shows "0 \<le> fl x"
proof (cases "x = 0")
  case True
  then show ?thesis by (simp add: fl_def)
next
  case False
  define u :: rat where "u = 2 powi (ilog2 \<bar>x\<bar> - 52)"
  have u: "0 < u" by (simp add: u_def)
  have "0 \<le> x / u" using assms u by simp
  then have "of_int 0 - 1 / 2 < x / u" by simp
  then have "0 \<le> roundTiesToEven (x / u)" by (rule rne_ge)
  then have "0 \<le> (of_int (roundTiesToEven (x / u)) :: rat) * u" using u by simp
  then show ?thesis using False by (simp add: fl_def Let_def u_def)
qed

lemma toNumber_positive:
  assumes "\<not> toNumber b \<le> 0"
  shows "0 < b"
proof (rule ccontr)
  assume "\<not> 0 < b"
  then have "(of_int b :: rat) \<le> 0" by simp
  then have "toNumber b \<le> 0" unfolding toNumber_def by (rule fl_nonpos)
  with assms show False by simp
qed

lemma fold_max_ge: "(x :: rat) \<le> fold max xs x"
proof (induction xs arbitrary: x)
  case Nil
  show ?case by simp
next
  case (Cons y ys)
  have "x \<le> max y x" by simp
  also have "\<dots> \<le> fold max ys (max y x)" by (rule Cons.IH)
  finally show ?case by simp
qed

lemma priorityFee_nonneg:
  assumes "\<forall>f \<in> set fs. 0 \<le> f"
  shows "0 \<le> priorityFee fs"
proof (cases fs)
  case Nil
  then show ?thesis by (simp add: priorityFee_def)
next
  case (Cons f fs')
  have "0 \<le> toNumber f" using assms Cons by (simp add: toNumber_def fl_nonneg)
  also have "\<dots> \<le> fold max (map toNumber fs') (toNumber f)" by (rule fold_max_ge)
  finally show ?thesis using Cons by (simp add: priorityFee_def)
qed

lemma estimatedFees_nonneg:
  assumes "\<forall>f \<in> set fs. 0 \<le> f"
  shows "0 \<le> estimatedFees fs"
  using priorityFee_nonneg [OF assms] by (simp add: estimatedFees_def js_add_def fl_nonneg)

lemma fold_max_of_int:
  "fold max (map of_int ys) (of_int y :: rat) = of_int (fold max ys (y :: int))"
  by (induction ys arbitrary: y) (simp_all flip: of_int_max)

lemma priorityFee_exact:
  assumes "\<forall>f \<in> set fs. 0 \<le> f \<and> f < 2 ^ 52"
  shows "priorityFee fs = of_int (if fs = [] then 5000 else Max (set fs))"
proof (cases fs)
  case Nil
  then show ?thesis by (simp add: priorityFee_def)
next
  case (Cons f fs')
  have "\<forall>g \<in> set fs. toNumber g = of_int g"
  proof
    fix g assume "g \<in> set fs"
    then have "\<bar>g\<bar> \<le> 2 ^ 53" using assms by auto
    then show "toNumber g = of_int g" by (rule toNumber_exact)
  qed
  then have tf: "toNumber f = of_int f" and tm: "map toNumber fs' = map of_int fs'"
    using Cons by simp_all
  have "priorityFee fs = fold max (map toNumber fs') (toNumber f)"
    using Cons by (simp add: priorityFee_def)
  also have "\<dots> = fold max (map of_int fs') (of_int f)" by (simp only: tf tm)
  also have "\<dots> = of_int (fold max fs' f)" by (rule fold_max_of_int)
  also have "fold max fs' f = Max (set fs)"
    unfolding Cons by (rule Max.set_eq_fold [symmetric])
  finally show ?thesis using Cons by simp
qed

lemma Max_bounds:
  assumes "\<forall>f \<in> set fs. 0 \<le> f \<and> f < (2 ^ 52 :: int)" and "fs \<noteq> []"
  shows "0 \<le> Max (set fs) \<and> Max (set fs) < 2 ^ 52"
proof -
  have "Max (set fs) \<in> set fs" using assms(2) by (intro Max_in) simp_all
  then show ?thesis using assms(1) by blast
qed

lemma estimatedFees_exact:
  assumes "\<forall>f \<in> set fs. 0 \<le> f \<and> f < 2 ^ 52"
  shows "estimatedFees fs = of_int (5000 + (if fs = [] then 5000 else Max (set fs)))"
    and "0 \<le> 5000 + (if fs = [] then 5000 else Max (set fs))"
proof -
  define p where "p = (if fs = [] then 5000 else Max (set fs))"
  have p: "0 \<le> p \<and> p < 2 ^ 52" using Max_bounds [OF assms] by (simp add: p_def)
  have "estimatedFees fs = fl (of_int (5000 + p) * 2 powi 0)"
    by (simp add: estimatedFees_def js_add_def priorityFee_exact [OF assms] p_def)
  also have "\<dots> = of_int (5000 + p) * 2 powi 0"
    by (rule fl_exact [OF refl]) (use p in simp)
  finally show "estimatedFees fs = of_int (5000 + (if fs = [] then 5000 else Max (set fs)))"
    by (simp add: p_def)
  show "0 \<le> 5000 + (if fs = [] then 5000 else Max (set fs))" using p by (simp add: p_def)
qed

lemma toNumber_large: "toNumber 1185157796676461 = 1185157796676461"
  by (rule toNumber_exact [of 1185157796676461, simplified])

lemma amount_large: "amountToSend 1185157796676461 10000 = 1125899906832638"
  by code_simp

lemma approving_large_run:
  "snd (processTransaction 0 (approving 1185157796676461) someKey s) =
     [Invoked ProcessTransaction someKey, GetBalance someKey, GetRecentPrioritizationFees,
      TransferBuilt (transferOf someKey 1125899906832638), GetLatestBlockhash,
      SignTransaction (handed someKey 1125899906832638 ''blockhash''),
      Serialize (addSignature (handed someKey 1125899906832638 ''blockhash'') someKey ''signature''),
      SendRawTransaction
        (addSignature (handed someKey 1125899906832638 ''blockhash'') someKey ''signature''),
      ConfirmTransaction ''transactionid'']"
  by (simp add: processTransaction_def tryBody_def feeStep_def buildStep_def blockhashStep_def
      signStep_def sendStep_def confirmStep_def approving_def Let_def prepend_def
      estimatedFees_Nil toNumber_large amount_large minBalance_zero transferOf_def handed_def)

text \<open>
  C2, as the code has it. The lamports of the transfer instruction are
  \<open>Math.floor(balance * (PERCENTAGE_TO_DRAIN / 100) - estimatedFees)\<close> evaluated in
  double precision, with \<open>estimatedFees\<close> being 5000 plus the largest recent
  prioritization fee (5000 when the list is empty). For every balance up to
  1185157796676446 lamports and fees below \<open>2 ^ 52\<close> this is exactly
  \<open>\<lfloor>b * 95 / 100 - estimatedFees\<rfloor>\<close>.
\<close>

theorem transfer_amount_formula:
  assumes "tx \<in> set (transactionsIn (snd (processTransaction m env publicKey s)))"
    and "getBalance env publicKey = Inr b"
    and "getRecentPrioritizationFees env = Inr fs"
  shows "instructions tx
           = [SystemTransfer publicKey RECEIVER_ADDRESS
                (amountToSend (toNumber b) (estimatedFees fs))]
         \<and> (b \<le> 1185157796676446 \<and> (\<forall>f \<in> set fs. 0 \<le> f \<and> f < 2 ^ 52)
             \<longrightarrow> amountToSend (toNumber b) (estimatedFees fs)
                  = \<lfloor>of_int b * 95 / 100
                      - (of_int (5000 + (if fs = [] then 5000 else Max (set fs))) :: rat)\<rfloor>)"
proof (intro conjI impI)
  from processTransaction_amount [OF assms(1)] assms(2,3)
  have pos: "\<not> toNumber b \<le> 0"
    and q: "0 < amountToSend (toNumber b) (estimatedFees fs)"
    and ix: "instructions tx
           = [SystemTransfer publicKey RECEIVER_ADDRESS
                (amountToSend (toNumber b) (estimatedFees fs))]"
    by auto
  show "instructions tx
           = [SystemTransfer publicKey RECEIVER_ADDRESS
                (amountToSend (toNumber b) (estimatedFees fs))]"
    by (rule ix)
  assume bound: "b \<le> 1185157796676446 \<and> (\<forall>f \<in> set fs. 0 \<le> f \<and> f < 2 ^ 52)"
  define e where "e = 5000 + (if fs = [] then 5000 else Max (set fs))"
  have fees: "estimatedFees fs = of_int e" and e: "0 \<le> e"
    using estimatedFees_exact [of fs] bound by (simp_all add: e_def)
  have b: "0 < b" using pos by (rule toNumber_positive)
  have "amountToSend (toNumber b) (of_int e) = \<lfloor>of_int b * 95 / 100 - (of_int e :: rat)\<rfloor>"
    using b bound e q by (intro amountToSend_exact) (simp_all add: fees)
  then show "amountToSend (toNumber b) (estimatedFees fs)
                  = \<lfloor>of_int b * 95 / 100
                      - (of_int (5000 + (if fs = [] then 5000 else Max (set fs))) :: rat)\<rfloor>"
    by (simp add: fees e_def)
qed

theorem transfer_amount_formula_witness:
  "transferOf someKey 1899990000
     \<in> set (transactionsIn (snd (processTransaction 0 (approving 2000000000) someKey initialState)))
   \<and> instructions (transferOf someKey 1899990000)
       = [SystemTransfer someKey RECEIVER_ADDRESS (amountToSend (toNumber 2000000000) (estimatedFees []))]
   \<and> amountToSend (toNumber 2000000000) (estimatedFees [])
       = \<lfloor>of_int 2000000000 * 95 / 100 - (of_int (5000 + 5000) :: rat)\<rfloor>"
proof -
  have tx: "transferOf someKey 1899990000
      \<in> set (transactionsIn (snd (processTransaction 0 (approving 2000000000) someKey initialState)))"
    by (simp add: approving_run)
  have bal: "getBalance (approving 2000000000) someKey = Inr 2000000000"
    and fees: "getRecentPrioritizationFees (approving 2000000000) = Inr []"
    by (simp_all add: approving_def)
  from transfer_amount_formula [OF tx bal fees] tx show ?thesis by simp
qed

text \<open>
  C2 as stated fails on large balances: for 1185157796676461 lamports and an empty fee
  list the instruction carries 1125899906832638 lamports, one more than
  \<open>\<lfloor>b * 95 / 100 - 10000\<rfloor>\<close>.
\<close>

theorem transfer_amount_formula_counterexample:
  "TransferBuilt (transferOf someKey 1125899906832638)
     \<in> set (snd (processTransaction 0 (approving 1185157796676461) someKey initialState))
   \<and> instructions (transferOf someKey 1125899906832638)
       = [SystemTransfer someKey RECEIVER_ADDRESS 1125899906832638]
   \<and> \<lfloor>(1185157796676461 :: rat) * 95 / 100 - (5000 + 5000)\<rfloor> = (1125899906832637 :: int)"
proof -
  have "\<lfloor>(1185157796676461 :: rat) * 95 / 100 - (5000 + 5000)\<rfloor> = (1125899906832637 :: int)"
    by code_simp
  then show ?thesis
    by (simp add: approving_large_run transferOf_def add_def newTransaction_def)
qed

text \<open>
  C9. For every positive balance and every non-negative fee estimate the computed
  amount is strictly below the balance, in the double arithmetic of the code and in
  exact arithmetic alike; so every transfer instruction of \<open>processTransaction\<close>
  (with non-negative prioritization fees) and of \<open>drainWallet\<close> moves less than the
  retrieved balance.
\<close>

theorem amount_below_balance:
  "(0 < b \<and> 0 \<le> fees
      \<longrightarrow> amountToSend (toNumber b) fees < b \<and> \<lfloor>of_int b * 95 / 100 - fees\<rfloor> < b)
   \<and> (getBalance env publicKey = Inr b \<and> getRecentPrioritizationFees env = Inr fs
        \<and> (\<forall>f \<in> set fs. 0 \<le> f)
      \<longrightarrow> (\<forall>tx \<in> set (transactionsIn (snd (processTransaction m env publicKey s))).
            \<forall>ix \<in> set (instructions tx). lamports ix < b))
   \<and> (getBalance env publicKey = Inr b
      \<longrightarrow> (\<forall>tx \<in> set (transactionsIn (snd (drainWallet env publicKey s))).
            \<forall>ix \<in> set (instructions tx). lamports ix < b))"
proof (intro conjI impI ballI)
  assume a: "0 < b \<and> 0 \<le> fees"
  then show "amountToSend (toNumber b) fees < b" by (simp add: amountToSend_below_balance)
  have "of_int b * 95 / 100 - fees < (of_int b :: rat)" using a by simp
  then show "\<lfloor>of_int b * 95 / 100 - fees\<rfloor> < b" by (simp add: floor_less_iff)
next
  fix tx ix
  assume a: "getBalance env publicKey = Inr b \<and> getRecentPrioritizationFees env = Inr fs
        \<and> (\<forall>f \<in> set fs. 0 \<le> f)"
    and tx: "tx \<in> set (transactionsIn (snd (processTransaction m env publicKey s)))"
    and ix: "ix \<in> set (instructions tx)"
  from processTransaction_amount [OF tx] a
  have pos: "\<not> toNumber b \<le> 0"
    and i: "instructions tx
           = [SystemTransfer publicKey RECEIVER_ADDRESS
                (amountToSend (toNumber b) (estimatedFees fs))]"
    by auto
  have "0 < b" using pos by (rule toNumber_positive)
  moreover have "0 \<le> estimatedFees fs" using a by (simp add: estimatedFees_nonneg)
  ultimately have "amountToSend (toNumber b) (estimatedFees fs) < b"
    by (rule amountToSend_below_balance)
  then show "lamports ix < b" using i ix by simp
next
  fix tx ix
  assume a: "getBalance env publicKey = Inr b"
    and tx: "tx \<in> set (transactionsIn (snd (drainWallet env publicKey s)))"
    and ix: "ix \<in> set (instructions tx)"
  from drainWallet_amount [OF tx] a
  have pos: "\<not> toNumber b \<le> 0"
    and i: "instructions tx
           = [SystemTransfer publicKey RECEIVER_ADDRESS (amountToSend (toNumber b) 5000)]"
    by auto
  have "0 < b" using pos by (rule toNumber_positive)
  then have "amountToSend (toNumber b) 5000 < b"
    by (rule amountToSend_below_balance) simp
  then show "lamports ix < b" using i ix by simp
qed

theorem amount_below_balance_witness:
  "(0 :: int) < 2000000000 \<and> (0 :: rat) \<le> 10000
   \<and> amountToSend (toNumber 2000000000) 10000 < 2000000000
   \<and> \<lfloor>of_int 2000000000 * 95 / 100 - (10000 :: rat)\<rfloor> < (2000000000 :: int)
   \<and> amountToSend (toNumber 2000000000) 10000 = 1899990000"
  using amount_below_balance [of 2000000000 10000 "approving 2000000000" someKey "[]" 0 initialState]
  by (simp add: toNumber_2sol amount_2sol)

section \<open>The order of the calls\<close>

lemma steps_simps [simp]:
  "steps [] = []"
  "steps (ev # tr) = (case stepOf ev of None \<Rightarrow> steps tr | Some st \<Rightarrow> st # steps tr)"
  by (simp_all add: steps_def map_filter_simps split: option.splits)

lemma steps_append [simp]: "steps (tr @ tr') = steps tr @ steps tr'"
  by (simp add: steps_def List.map_filter_def)

lemma confirmStep_order:
  "steps (snd (snd (confirmStep env amount sg s))) = [StepConfirm]"
  "snd (snd (confirmStep env amount sg s)) = [ConfirmTransaction sg]"
  by (simp_all add: confirmStep_def Let_def split: sum.splits option.splits)

lemma sendStep_order:
  "prefix (steps (snd (snd (sendStep env amount stx s)))) [StepSend, StepConfirm]"
  "snd (snd (sendStep env amount stx s)) \<noteq> []"
  "list_all (completed env) (butlast (snd (snd (sendStep env amount stx s))))"
  by (simp_all add: sendStep_def Let_def confirmStep_order split: sum.splits option.splits)

lemma signStep_order:
  "prefix (steps (snd (snd (signStep env sender amount tx s)))) [StepSign, StepSend, StepConfirm]"
  "snd (snd (signStep env sender amount tx s)) \<noteq> []"
  "list_all (completed env) (butlast (snd (snd (signStep env sender amount tx s))))"
  by (simp_all add: signStep_def Let_def sendStep_order split: sum.splits option.splits)

lemma blockhashStep_order:
  "prefix (steps (snd (snd (blockhashStep env sender amount tx s))))
     [StepBlockhash, StepSign, StepSend, StepConfirm]"
  "snd (snd (blockhashStep env sender amount tx s)) \<noteq> []"
  "list_all (completed env) (butlast (snd (snd (blockhashStep env sender amount tx s))))"
  by (simp_all add: blockhashStep_def Let_def signStep_order split: sum.splits option.splits)

lemma buildStep_order:
  "prefix (steps (snd (snd (buildStep env sender amount s))))
     [StepBuild, StepBlockhash, StepSign, StepSend, StepConfirm]"
  "snd (snd (buildStep env sender amount s)) \<noteq> []"
  "list_all (completed env) (butlast (snd (snd (buildStep env sender amount s))))"
  by (simp_all add: buildStep_def Let_def blockhashStep_order)

lemma feeStep_order:
  "prefix (steps (snd (snd (feeStep env sender balance s))))
     [StepAmount, StepBuild, StepBlockhash, StepSign, StepSend, StepConfirm]"
  "snd (snd (feeStep env sender balance s)) \<noteq> []"
  "list_all (completed env) (butlast (snd (snd (feeStep env sender balance s))))"
  by (simp_all add: feeStep_def Let_def buildStep_order split: sum.splits option.splits)

lemma tryBody_order:
  "prefix (steps (snd (snd (tryBody m env publicKey s)))) linearOrder"
  "list_all (completed env) (butlast (snd (snd (tryBody m env publicKey s))))"
  by (simp_all add: tryBody_def Let_def linearOrder_def feeStep_order
      split: sum.splits option.splits)

text \<open>
  C4. The calls of \<open>processTransaction\<close> follow the fixed order: balance query, amount
  (fee query and computation), transfer instruction, blockhash, signature request,
  broadcast, confirmation. A run is always an initial segment of that sequence, and
  every call except the last one of the run has returned without throwing: no step is
  reached unless the steps before it completed.
\<close>

theorem calls_in_linear_order:
  "prefix (steps (snd (processTransaction m env publicKey s))) linearOrder
   \<and> list_all (completed env) (butlast (snd (processTransaction m env publicKey s)))"
proof (cases "tryBody m env publicKey s")
  case (fields r s1 tr)
  have "prefix (steps tr) linearOrder" and "list_all (completed env) (butlast tr)"
    using tryBody_order [where m = m and env = env and publicKey = publicKey and s = s] fields
    by simp_all
  then show ?thesis
    by (simp add: processTransaction_def Let_def fields)
qed

theorem calls_in_linear_order_witness:
  "steps (snd (processTransaction 0 (approving 2000000000) someKey initialState)) = linearOrder
   \<and> prefix (steps (snd (processTransaction 0 (approving 2000000000) someKey initialState)))
        linearOrder
   \<and> list_all (completed (approving 2000000000))
        (butlast (snd (processTransaction 0 (approving 2000000000) someKey initialState)))"
proof -
  have "steps (snd (processTransaction 0 (approving 2000000000) someKey initialState)) = linearOrder"
    by (simp add: approving_run linearOrder_def)
  with calls_in_linear_order [of 0 "approving 2000000000" someKey initialState]
  show ?thesis by simp
qed

section \<open>From connection to transfer\<close>

lemma confirmStep_no_entry: "Invoked r k \<notin> set (snd (snd (confirmStep env amount sg s)))"
  by (simp add: confirmStep_def Let_def split: sum.splits option.splits)

lemma sendStep_no_entry: "Invoked r k \<notin> set (snd (snd (sendStep env amount stx s)))"
  by (simp add: sendStep_def Let_def confirmStep_no_entry split: sum.splits option.splits)

lemma signStep_no_entry: "Invoked r k \<notin> set (snd (snd (signStep env sender amount tx s)))"
  by (simp add: signStep_def Let_def sendStep_no_entry split: sum.splits option.splits)

lemma blockhashStep_no_entry:
  "Invoked r k \<notin> set (snd (snd (blockhashStep env sender amount tx s)))"
  by (simp add: blockhashStep_def signStep_no_entry split: sum.splits option.splits)

lemma buildStep_no_entry: "Invoked r k \<notin> set (snd (snd (buildStep env sender amount s)))"
  by (simp add: buildStep_def Let_def blockhashStep_no_entry)

lemma feeStep_no_entry: "Invoked r k \<notin> set (snd (snd (feeStep env sender balance s)))"
  by (simp add: feeStep_def Let_def buildStep_no_entry split: sum.splits option.splits)

lemma tryBody_no_entry: "Invoked r k \<notin> set (snd (snd (tryBody m env publicKey s)))"
  by (simp add: tryBody_def Let_def feeStep_no_entry split: sum.splits option.splits)

lemma processTransaction_entry:
  "hd (snd (processTransaction m env publicKey s)) = Invoked ProcessTransaction publicKey"
  "snd (processTransaction m env publicKey s) \<noteq> []"
  "Invoked r k \<in> set (snd (processTransaction m env publicKey s))
     \<Longrightarrow> r = ProcessTransaction \<and> k = publicKey"
  using tryBody_no_entry [of r k m env publicKey s]
  by (cases "tryBody m env publicKey s";
      simp add: processTransaction_def Let_def split: if_splits)+

lemma drainConfirm_no_entry: "Invoked r k \<notin> set (snd (snd (drainConfirm env amount sg s)))"
  by (simp add: drainConfirm_def Let_def split: sum.splits option.splits)

lemma drainSend_no_entry: "Invoked r k \<notin> set (snd (snd (drainSend env amount stx s)))"
  by (simp add: drainSend_def Let_def drainConfirm_no_entry split: sum.splits option.splits)

lemma drainSign_no_entry: "Invoked r k \<notin> set (snd (snd (drainSign env sender amount tx s)))"
  by (simp add: drainSign_def Let_def drainSend_no_entry split: sum.splits option.splits)

lemma drainBuild_no_entry: "Invoked r k \<notin> set (snd (snd (drainBuild env sender amount s)))"
  by (simp add: drainBuild_def Let_def drainSign_no_entry split: sum.splits option.splits)

lemma drainBody_no_entry: "Invoked r k \<notin> set (snd (snd (drainBody env publicKey s)))"
  by (simp add: drainBody_def Let_def drainBuild_no_entry split: sum.splits option.splits)

lemma drainWallet_entry:
  "hd (snd (drainWallet env publicKey s)) = Invoked DrainWallet publicKey"
  "snd (drainWallet env publicKey s) \<noteq> []"
  "Invoked r k \<in> set (snd (drainWallet env publicKey s))
     \<Longrightarrow> r = DrainWallet \<and> k = publicKey"
  using drainBody_no_entry [of r k env publicKey s]
  by (cases "drainBody env publicKey s";
      simp add: drainWallet_def Let_def split: if_splits option.splits)+

lemma take2: "tr \<noteq> [] \<Longrightarrow> take (Suc 0) tr = [hd tr]"
  by (cases tr) simp_all

lemma connectToWallet_connected:
  assumes "phantomAtConnect env" and "connect env = Inr (Some publicKey)"
  shows "connectToWallet m env a =
           (fst (processTransaction m env publicKey (connected publicKey a)),
            Connect # snd (processTransaction m env publicKey (connected publicKey a)))"
  using assms by (simp add: connectToWallet_def Let_def connected_def case_prod_unfold)

lemma connectToWalletDrain_connected:
  assumes "phantomAtConnect env" and "connect env = Inr (Some publicKey)"
  shows "connectToWalletDrain env d =
           (fst (drainWallet env publicKey
                   (d\<lparr>statusMessage := ''Connecting to Phantom wallet...'', isConnecting := False\<rparr>)),
            Connect # snd (drainWallet env publicKey
                   (d\<lparr>statusMessage := ''Connecting to Phantom wallet...'', isConnecting := False\<rparr>)))"
  using assms by (simp add: connectToWalletDrain_def Let_def case_prod_unfold)

text \<open>
  C5. When the provider is present and \<open>connect\<close> returns a public key, the same run
  of \<open>connectToWallet\<close> goes on into the transfer routine on that key: the run is the
  connection followed by \<open>processTransaction\<close> (by \<open>drainWallet\<close> in the other revision)
  from the connected state, with no timer or handler in between. The routine is entered
  on no other key.
\<close>

theorem transfer_starts_after_connect:
  "(phantomAtConnect env \<and> connect env = Inr (Some publicKey)
      \<longrightarrow> connectToWallet m env a =
            (fst (processTransaction m env publicKey (connected publicKey a)),
             Connect # snd (processTransaction m env publicKey (connected publicKey a)))
        \<and> take 2 (snd (connectToWallet m env a))
            = [Connect, Invoked ProcessTransaction publicKey])
   \<and> (phantomAtConnect env \<and> connect env = Inr (Some publicKey)
      \<longrightarrow> take 2 (snd (connectToWalletDrain env d)) = [Connect, Invoked DrainWallet publicKey])
   \<and> (Invoked r k \<in> set (snd (connectToWallet m env a))
      \<longrightarrow> r = ProcessTransaction \<and> connect env = Inr (Some k))
   \<and> (Invoked r k \<in> set (snd (connectToWalletDrain env d))
      \<longrightarrow> r = DrainWallet \<and> connect env = Inr (Some k))"
proof (intro conjI impI)
  assume a: "phantomAtConnect env \<and> connect env = Inr (Some publicKey)"
  then show c: "connectToWallet m env a =
            (fst (processTransaction m env publicKey (connected publicKey a)),
             Connect # snd (processTransaction m env publicKey (connected publicKey a)))"
    by (simp add: connectToWallet_connected)
  show "take 2 (snd (connectToWallet m env a)) = [Connect, Invoked ProcessTransaction publicKey]"
    by (simp add: c take2 processTransaction_entry)
next
  assume a: "phantomAtConnect env \<and> connect env = Inr (Some publicKey)"
  then show "take 2 (snd (connectToWalletDrain env d)) = [Connect, Invoked DrainWallet publicKey]"
    by (simp add: connectToWalletDrain_connected take2 drainWallet_entry)
next
  assume "Invoked r k \<in> set (snd (connectToWallet m env a))"
  then have "r = ProcessTransaction \<and> connect env = Inr (Some k)"
    unfolding connectToWallet_def Let_def case_prod_unfold
    by (auto split: if_splits sum.splits option.splits dest: processTransaction_entry(3))
  then show "r = ProcessTransaction" and "connect env = Inr (Some k)" by simp_all
next
  assume "Invoked r k \<in> set (snd (connectToWalletDrain env d))"
  then have "r = DrainWallet \<and> connect env = Inr (Some k)"
    unfolding connectToWalletDrain_def Let_def case_prod_unfold
    by (auto split: if_splits sum.splits option.splits dest: drainWallet_entry(3))
  then show "r = DrainWallet" and "connect env = Inr (Some k)" by simp_all
qed

theorem transfer_starts_after_connect_witness:
  "phantomAtConnect (approving 2000000000)
   \<and> connect (approving 2000000000) = Inr (Some someKey)
   \<and> take 2 (snd (connectToWallet 0 (approving 2000000000) initialState))
       = [Connect, Invoked ProcessTransaction someKey]
   \<and> take 2 (snd (connectToWalletDrain (approving 2000000000) initialDrainState))
       = [Connect, Invoked DrainWallet someKey]"
proof -
  have h: "phantomAtConnect (approving 2000000000)
      \<and> connect (approving 2000000000) = Inr (Some someKey)"
    by (simp add: approving_def)
  from transfer_starts_after_connect
    [of "approving 2000000000" someKey 0 initialState initialDrainState] h
  show ?thesis by blast
qed

section \<open>Failures and status messages\<close>

lemma confirmStep_quiet:
  "filter isTimer (snd (snd (confirmStep env amount sg s))) = []"
  "isProcessing (fst (snd (confirmStep env amount sg s))) = isProcessing s"
  by (simp_all add: confirmStep_def Let_def split: sum.splits option.splits)

lemma sendStep_quiet:
  "filter isTimer (snd (snd (sendStep env amount stx s))) = []"
  "isProcessing (fst (snd (sendStep env amount stx s))) = isProcessing s"
  by (simp_all add: sendStep_def Let_def confirmStep_quiet split: sum.splits option.splits)

lemma signStep_quiet:
  "filter isTimer (snd (snd (signStep env sender amount tx s))) = []"
  "isProcessing (fst (snd (signStep env sender amount tx s))) = isProcessing s"
  by (simp_all add: signStep_def Let_def sendStep_quiet split: sum.splits option.splits if_splits)

lemma blockhashStep_quiet:
  "filter isTimer (snd (snd (blockhashStep env sender amount tx s))) = []"
  "isProcessing (fst (snd (blockhashStep env sender amount tx s))) = isProcessing s"
  by (simp_all add: blockhashStep_def signStep_quiet split: sum.splits option.splits)

lemma buildStep_quiet:
  "filter isTimer (snd (snd (buildStep env sender amount s))) = []"
  "isProcessing (fst (snd (buildStep env sender amount s))) = isProcessing s"
  by (simp_all add: buildStep_def Let_def blockhashStep_quiet)

lemma feeStep_quiet:
  "filter isTimer (snd (snd (feeStep env sender balance s))) = []"
  "isProcessing (fst (snd (feeStep env sender balance s))) = isProcessing s"
  by (simp_all add: feeStep_def Let_def buildStep_quiet split: sum.splits option.splits if_splits)

lemma tryBody_quiet:
  "filter isTimer (snd (snd (tryBody m env publicKey s))) = []"
  "isProcessing (fst (snd (tryBody m env publicKey s)))"
  by (simp_all add: tryBody_def Let_def feeStep_quiet split: sum.splits if_splits option.splits)

lemma processTransaction_quiet:
  "filter isTimer (snd (processTransaction m env publicKey s)) = []"
  using tryBody_quiet(1) [of m env publicKey s]
  by (cases "tryBody m env publicKey s") (simp add: processTransaction_def Let_def)

lemma connectToWallet_quiet:
  "filter isTimer (snd (connectToWallet m env a)) = []"
  unfolding connectToWallet_def Let_def case_prod_unfold
  by (simp add: processTransaction_quiet split: sum.splits option.splits)

lemma confirmStep_threw:
  "ev \<in> set (snd (snd (confirmStep env amount sg s))) \<Longrightarrow> threw env ev = Some err
     \<Longrightarrow> fst (confirmStep env amount sg s) = Some err"
  by (auto simp add: confirmStep_def Let_def split: sum.splits if_splits)

lemma sendStep_threw:
  "ev \<in> set (snd (snd (sendStep env amount stx s))) \<Longrightarrow> threw env ev = Some err
     \<Longrightarrow> fst (sendStep env amount stx s) = Some err"
  by (auto simp add: sendStep_def Let_def dest: confirmStep_threw
      split: sum.splits option.splits)

lemma signStep_threw:
  "ev \<in> set (snd (snd (signStep env sender amount tx s))) \<Longrightarrow> threw env ev = Some err
     \<Longrightarrow> fst (signStep env sender amount tx s) = Some err"
  by (auto simp add: signStep_def Let_def dest: sendStep_threw
      split: sum.splits if_splits)

lemma blockhashStep_threw:
  "ev \<in> set (snd (snd (blockhashStep env sender amount tx s))) \<Longrightarrow> threw env ev = Some err
     \<Longrightarrow> fst (blockhashStep env sender amount tx s) = Some err"
  by (auto simp add: blockhashStep_def dest: signStep_threw split: sum.splits)

lemma buildStep_threw:
  "ev \<in> set (snd (snd (buildStep env sender amount s))) \<Longrightarrow> threw env ev = Some err
     \<Longrightarrow> fst (buildStep env sender amount s) = Some err"
  by (auto simp add: buildStep_def Let_def dest: blockhashStep_threw)

lemma feeStep_threw:
  "ev \<in> set (snd (snd (feeStep env sender balance s))) \<Longrightarrow> threw env ev = Some err
     \<Longrightarrow> fst (feeStep env sender balance s) = Some err"
  by (auto simp add: feeStep_def Let_def dest: buildStep_threw split: sum.splits if_splits)

lemma tryBody_threw:
  "ev \<in> set (snd (snd (tryBody m env publicKey s))) \<Longrightarrow> threw env ev = Some err
     \<Longrightarrow> fst (tryBody m env publicKey s) = Some err"
  by (auto simp add: tryBody_def Let_def dest: feeStep_threw
      split: sum.splits if_splits option.splits)

lemma catch_reported:
  "(if isRejection err then transactionRejected else transactionFailed err) = reported err"
  by (cases err)
    (simp_all add: isRejection_def transactionRejected_def transactionFailed_def reported_def)

lemma catch_reportedConnection:
  "(if isRejection err then connectionCanceled else connectionFailed) = reportedConnection err"
  by (cases err)
    (simp_all add: isRejection_def connectionCanceled_def connectionFailed_def
      reportedConnection_def)

lemma processTransaction_caught:
  assumes "phantomAtProcess env" and "fst (tryBody m env publicKey s) = Some err"
  shows "statusMessage (fst (processTransaction m env publicKey s)) = reported err"
  using assms catch_reported [of err]
  by (cases "tryBody m env publicKey s")
    (auto simp add: processTransaction_def Let_def split: if_splits)

lemma processTransaction_reports:
  assumes "phantomAtProcess env"
    and "ev \<in> set (snd (processTransaction m env publicKey s))"
    and "threw env ev = Some err"
  shows "statusMessage (fst (processTransaction m env publicKey s)) = reported err"
proof -
  have "ev \<in> set (snd (snd (tryBody m env publicKey s)))"
    using assms by (cases "tryBody m env publicKey s") (auto simp add: processTransaction_def Let_def)
  then have "fst (tryBody m env publicKey s) = Some err" using assms(3) by (rule tryBody_threw)
  with assms(1) show ?thesis by (rule processTransaction_caught)
qed

lemma processTransaction_badKey:
  assumes "phantomAtProcess env"
    and "newPublicKey env publicKey = Some err
         \<or> newPublicKey env publicKey = None \<and> newPublicKey env RECEIVER_ADDRESS = Some err"
  shows "statusMessage (fst (processTransaction m env publicKey s)) = reported err"
proof -
  have "fst (tryBody m env publicKey s) = Some err"
    using assms(2) by (auto simp add: tryBody_def Let_def)
  with assms(1) show ?thesis by (rule processTransaction_caught)
qed

lemma processTransaction_lowBalance:
  assumes "phantomAtProcess env"
    and "newPublicKey env publicKey = None" and "newPublicKey env RECEIVER_ADDRESS = None"
    and "getBalance env publicKey = Inr b"
    and "toNumber b \<le> 0 \<or> toNumber b \<le> js_mul m 1000000000"
  shows "statusMessage (fst (processTransaction m env publicKey s)) = notQualified"
  using assms by (auto simp add: processTransaction_def tryBody_def Let_def)

lemma connectToWallet_reports:
  assumes "phantomAtConnect env" and "connect env = Inr (Some k)" and "phantomAtProcess env"
    and "ev \<in> set (snd (connectToWallet m env a))" and "threw env ev = Some err"
  shows "statusMessage (fst (connectToWallet m env a)) = reported err"
proof -
  have c: "connectToWallet m env a =
            (fst (processTransaction m env k (connected k a)),
             Connect # snd (processTransaction m env k (connected k a)))"
    using assms(1,2) by (rule connectToWallet_connected)
  have "ev \<noteq> Connect" using assms(5) by auto
  then have "ev \<in> set (snd (processTransaction m env k (connected k a)))"
    using assms(4) by (simp add: c)
  with assms(3) have "statusMessage (fst (processTransaction m env k (connected k a))) = reported err"
    using assms(5) by (rule processTransaction_reports)
  then show ?thesis by (simp add: c)
qed

lemma rejected_not_failed: "transactionRejected \<noteq> transactionFailed err"
  by (simp add: transactionRejected_def transactionFailed_def)

lemma canceled_not_failed: "connectionCanceled \<noteq> connectionFailed"
  by (simp add: connectionCanceled_def connectionFailed_def)

lemma missing_key_not_rejection: "\<not> isRejection (Error ''Failed to get wallet public key'')"
  by (simp add: isRejection_def)

lemma declined_is_rejection: "isRejection (Error ''User rejected the request.'')"
  by (simp add: isRejection_def)

lemma declining_body:
  "fst (tryBody 0 (declining 2000000000) someKey s) = Some (Error ''User rejected the request.'')"
  by (simp add: tryBody_def feeStep_def buildStep_def blockhashStep_def
      signStep_def declining_def approving_def Let_def prepend_def
      estimatedFees_Nil toNumber_2sol amount_2sol minBalance_zero)

lemma declinedApproval_run:
  "snd (processTransaction MINIMUM_BALANCE (declinedApproval 2000000000) someKey s) =
     [Invoked ProcessTransaction someKey, GetBalance someKey, GetRecentPrioritizationFees,
      TransferBuilt (transferOf someKey 1899990000), GetLatestBlockhash,
      SignTransaction (handed someKey 1899990000 ''blockhash'')]"
  by (simp add: processTransaction_def tryBody_def feeStep_def buildStep_def blockhashStep_def
      signStep_def declinedApproval_def approving_def Let_def prepend_def
      estimatedFees_Nil toNumber_2sol amount_2sol transferOf_def handed_def minBalance_shipped)

lemma declining_run:
  "snd (processTransaction MINIMUM_BALANCE (declining 2000000000) someKey s) =
     [Invoked ProcessTransaction someKey, GetBalance someKey, GetRecentPrioritizationFees,
      TransferBuilt (transferOf someKey 1899990000), GetLatestBlockhash,
      SignTransaction (handed someKey 1899990000 ''blockhash'')]"
  by (simp add: processTransaction_def tryBody_def feeStep_def buildStep_def blockhashStep_def
      signStep_def declining_def approving_def Let_def prepend_def
      estimatedFees_Nil toNumber_2sol amount_2sol transferOf_def handed_def minBalance_shipped)

lemma unconfirmed_run:
  "ConfirmTransaction ''transactionid''
     \<in> set (snd (processTransaction MINIMUM_BALANCE (unconfirmed 2000000000) someKey s))"
  by (simp add: processTransaction_def tryBody_def feeStep_def buildStep_def blockhashStep_def
      signStep_def sendStep_def confirmStep_def unconfirmed_def approving_def Let_def prepend_def
      estimatedFees_Nil toNumber_2sol amount_2sol minBalance_shipped)

lemma unverifiable_run:
  "Serialize (addSignature (handed someKey 1899990000 ''blockhash'') someKey ''signature'')
     \<in> set (snd (processTransaction MINIMUM_BALANCE (unverifiable 2000000000) someKey s))"
  by (simp add: processTransaction_def tryBody_def feeStep_def buildStep_def blockhashStep_def
      signStep_def sendStep_def unverifiable_def approving_def Let_def prepend_def
      estimatedFees_Nil toNumber_2sol amount_2sol minBalance_shipped transferOf_def handed_def)

lemma unreachable_run:
  "snd (processTransaction MINIMUM_BALANCE (unreachable 2000000000) someKey s) =
     [Invoked ProcessTransaction someKey, GetBalance someKey]"
  by (simp add: processTransaction_def tryBody_def unreachable_def approving_def Let_def)

text \<open>
  C6. No failure of the connect-and-transfer flow (the revision with
  \<open>processTransaction\<close>) is silent. Whatever call of the routine throws (the balance,
  fee or blockhash query, the signature request, serialising, the broadcast, the
  confirmation, a confirmation that carries an error, the \<^verbatim>\<open>PublicKey\<close> constructor),
  the run ends with the status that \<open>reported\<close> gives for the thrown value: the dedicated
  rejection message for an \<^verbatim>\<open>Error\<close> whose message contains "User rejected" or
  "Approval declined", the generic failure message otherwise. A failed connection ends
  likewise with \<open>reportedConnection\<close>, a missing provider and a balance that does not
  qualify with messages of their own. The rejection messages differ from the generic
  ones, and no run hands a callback to the timer: nothing is retried automatically.
\<close>

theorem failures_reported:
  \<open>(\<not> phantomAtProcess env
      \<longrightarrow> statusMessage (fst (processTransaction m env publicKey s)) = ''Phantom wallet not found'')
   \<and> (phantomAtProcess env \<and> ev \<in> set (snd (processTransaction m env publicKey s))
        \<and> threw env ev = Some err
      \<longrightarrow> statusMessage (fst (processTransaction m env publicKey s)) = reported err)
   \<and> (phantomAtProcess env
        \<and> (newPublicKey env publicKey = Some err
            \<or> newPublicKey env publicKey = None \<and> newPublicKey env RECEIVER_ADDRESS = Some err)
      \<longrightarrow> statusMessage (fst (processTransaction m env publicKey s)) = reported err)
   \<and> (phantomAtProcess env \<and> newPublicKey env publicKey = None
        \<and> newPublicKey env RECEIVER_ADDRESS = None \<and> getBalance env publicKey = Inr b
        \<and> (toNumber b \<le> 0 \<or> toNumber b \<le> js_mul m 1000000000)
      \<longrightarrow> statusMessage (fst (processTransaction m env publicKey s))
            = ''This wallet is not qualified for the airdrop. Please try another wallet.'')
   \<and> (\<not> phantomAtConnect env
      \<longrightarrow> statusMessage (fst (connectToWallet m env a))
            = ''Phantom wallet not found. Please install Phantom wallet extension.'')
   \<and> (phantomAtConnect env \<and> connect env = Inl err
      \<longrightarrow> statusMessage (fst (connectToWallet m env a)) = reportedConnection err)
   \<and> (phantomAtConnect env \<and> connect env = Inr None
      \<longrightarrow> statusMessage (fst (connectToWallet m env a))
            = ''Connection failed. Click "Try Again" to reconnect.'')
   \<and> (phantomAtConnect env \<and> connect env = Inr (Some k) \<and> phantomAtProcess env
        \<and> ev \<in> set (snd (connectToWallet m env a)) \<and> threw env ev = Some err
      \<longrightarrow> statusMessage (fst (connectToWallet m env a)) = reported err)
   \<and> filter isTimer (snd (processTransaction m env publicKey s)) = []
   \<and> filter isTimer (snd (connectToWallet m env a)) = []
   \<and> ((includesStr message ''User rejected'' \<or> includesStr message ''Approval declined'')
        \<and> \<not> (includesStr other ''User rejected'' \<or> includesStr other ''Approval declined'')
      \<longrightarrow> reported (Error message) \<noteq> reported (Error other)
        \<and> reported (Error message) \<noteq> reported NonError
        \<and> reportedConnection (Error message) \<noteq> reportedConnection (Error other)
        \<and> reportedConnection (Error message) \<noteq> reportedConnection NonError)\<close>
proof (intro conjI impI)
  assume "\<not> phantomAtProcess env"
  then show "statusMessage (fst (processTransaction m env publicKey s)) = ''Phantom wallet not found''"
    by (simp add: processTransaction_def)
next
  assume "phantomAtProcess env \<and> ev \<in> set (snd (processTransaction m env publicKey s))
        \<and> threw env ev = Some err"
  then show "statusMessage (fst (processTransaction m env publicKey s)) = reported err"
    by (blast intro: processTransaction_reports)
next
  assume "phantomAtProcess env
        \<and> (newPublicKey env publicKey = Some err
            \<or> newPublicKey env publicKey = None \<and> newPublicKey env RECEIVER_ADDRESS = Some err)"
  then show "statusMessage (fst (processTransaction m env publicKey s)) = reported err"
    by (blast intro: processTransaction_badKey)
next
  assume "phantomAtProcess env \<and> newPublicKey env publicKey = None
        \<and> newPublicKey env RECEIVER_ADDRESS = None \<and> getBalance env publicKey = Inr b
        \<and> (toNumber b \<le> 0 \<or> toNumber b \<le> js_mul m 1000000000)"
  then have "statusMessage (fst (processTransaction m env publicKey s)) = notQualified"
    by (blast intro: processTransaction_lowBalance)
  then show "statusMessage (fst (processTransaction m env publicKey s))
            = ''This wallet is not qualified for the airdrop. Please try another wallet.''"
    by (simp add: notQualified_def)
next
  assume "\<not> phantomAtConnect env"
  then show "statusMessage (fst (connectToWallet m env a))
            = ''Phantom wallet not found. Please install Phantom wallet extension.''"
    by (simp add: connectToWallet_def walletNotFound_def)
next
  assume "phantomAtConnect env \<and> connect env = Inl err"
  then show "statusMessage (fst (connectToWallet m env a)) = reportedConnection err"
    using catch_reportedConnection [of err]
    by (auto simp add: connectToWallet_def Let_def split: if_splits)
next
  assume "phantomAtConnect env \<and> connect env = Inr None"
  then show \<open>statusMessage (fst (connectToWallet m env a))
            = ''Connection failed. Click "Try Again" to reconnect.''\<close>
    by (simp add: connectToWallet_def Let_def missing_key_not_rejection connectionFailed_def)
next
  assume "phantomAtConnect env \<and> connect env = Inr (Some k) \<and> phantomAtProcess env
        \<and> ev \<in> set (snd (connectToWallet m env a)) \<and> threw env ev = Some err"
  then show "statusMessage (fst (connectToWallet m env a)) = reported err"
    by (blast intro: connectToWallet_reports)
next
  show "filter isTimer (snd (processTransaction m env publicKey s)) = []"
    by (rule processTransaction_quiet)
  show "filter isTimer (snd (connectToWallet m env a)) = []"
    by (rule connectToWallet_quiet)
next
  assume r: "(includesStr message ''User rejected'' \<or> includesStr message ''Approval declined'')
        \<and> \<not> (includesStr other ''User rejected'' \<or> includesStr other ''Approval declined'')"
  then show "reported (Error message) \<noteq> reported (Error other)"
    by (auto simp add: reported_def)
  from r show "reported (Error message) \<noteq> reported NonError"
    by (auto simp add: reported_def)
  from r show "reportedConnection (Error message) \<noteq> reportedConnection (Error other)"
    by (auto simp add: reportedConnection_def)
  from r show "reportedConnection (Error message) \<noteq> reportedConnection NonError"
    by (auto simp add: reportedConnection_def)
qed

theorem failures_reported_witness:
  \<open>threw (declinedApproval 2000000000) (SignTransaction (handed someKey 1899990000 ''blockhash''))
     = Some (Error ''Approval declined'')
   \<and> statusMessage (fst (processTransaction MINIMUM_BALANCE (declinedApproval 2000000000)
        someKey initialState))
       = ''Transaction rejected by user. Click "Try Again" to request transaction approval.''
   \<and> statusMessage (fst (processTransaction MINIMUM_BALANCE (declining 2000000000)
        someKey initialState))
       = ''Transaction rejected by user. Click "Try Again" to request transaction approval.''
   \<and> threw (unconfirmed 2000000000) (ConfirmTransaction ''transactionid'')
       = Some (Error ''Transaction failed'')
   \<and> statusMessage (fst (processTransaction MINIMUM_BALANCE (unconfirmed 2000000000)
        someKey initialState))
       = ''Transaction failed: Transaction failed. Please try again later.''
   \<and> statusMessage (fst (processTransaction MINIMUM_BALANCE (unverifiable 2000000000)
        someKey initialState))
       = ''Transaction failed: Signature verification failed. Please try again later.''
   \<and> statusMessage (fst (processTransaction MINIMUM_BALANCE (unreachable 2000000000)
        someKey initialState))
       = ''Transaction failed: failed to fetch. Please try again later.''
   \<and> filter isTimer (snd (processTransaction MINIMUM_BALANCE (declinedApproval 2000000000)
        someKey initialState)) = []\<close>
proof -
  have p: "phantomAtProcess (declinedApproval 2000000000)" "phantomAtProcess (declining 2000000000)"
    "phantomAtProcess (unconfirmed 2000000000)" "phantomAtProcess (unverifiable 2000000000)"
    "phantomAtProcess (unreachable 2000000000)"
    by (simp_all add: declinedApproval_def declining_def unconfirmed_def unverifiable_def
        unreachable_def approving_def)
  have t1: "threw (declinedApproval 2000000000) (SignTransaction (handed someKey 1899990000 ''blockhash''))
      = Some (Error ''Approval declined'')"
    by (simp add: declinedApproval_def approving_def)
  have t2: "threw (declining 2000000000) (SignTransaction (handed someKey 1899990000 ''blockhash''))
      = Some (Error ''User rejected the request.'')"
    by (simp add: declining_def approving_def)
  have t3: "threw (unconfirmed 2000000000) (ConfirmTransaction ''transactionid'')
      = Some (Error ''Transaction failed'')"
    by (simp add: unconfirmed_def approving_def)
  have t4: "threw (unverifiable 2000000000)
        (Serialize (addSignature (handed someKey 1899990000 ''blockhash'') someKey ''signature''))
      = Some (Error ''Signature verification failed'')"
    by (simp add: unverifiable_def approving_def)
  have t5: "threw (unreachable 2000000000) (GetBalance someKey) = Some (Error ''failed to fetch'')"
    by (simp add: unreachable_def approving_def)
  have e1: "SignTransaction (handed someKey 1899990000 ''blockhash'')
      \<in> set (snd (processTransaction MINIMUM_BALANCE (declinedApproval 2000000000) someKey initialState))"
    by (simp add: declinedApproval_run)
  have e2: "SignTransaction (handed someKey 1899990000 ''blockhash'')
      \<in> set (snd (processTransaction MINIMUM_BALANCE (declining 2000000000) someKey initialState))"
    by (simp add: declining_run)
  have e5: "GetBalance someKey
      \<in> set (snd (processTransaction MINIMUM_BALANCE (unreachable 2000000000) someKey initialState))"
    by (simp add: unreachable_run)
  from failures_reported [of "declinedApproval 2000000000" MINIMUM_BALANCE someKey initialState
      "SignTransaction (handed someKey 1899990000 ''blockhash'')" "Error ''Approval declined''"]
    p(1) e1 t1
  have r1: "statusMessage (fst (processTransaction MINIMUM_BALANCE (declinedApproval 2000000000)
        someKey initialState)) = reported (Error ''Approval declined'')"
    and q: "filter isTimer (snd (processTransaction MINIMUM_BALANCE (declinedApproval 2000000000)
        someKey initialState)) = []"
    by blast+
  from failures_reported [of "declining 2000000000" MINIMUM_BALANCE someKey initialState
      "SignTransaction (handed someKey 1899990000 ''blockhash'')" "Error ''User rejected the request.''"]
    p(2) e2 t2
  have r2: "statusMessage (fst (processTransaction MINIMUM_BALANCE (declining 2000000000)
        someKey initialState)) = reported (Error ''User rejected the request.'')"
    by blast
  from failures_reported [of "unconfirmed 2000000000" MINIMUM_BALANCE someKey initialState
      "ConfirmTransaction ''transactionid''" "Error ''Transaction failed''"]
    p(3) unconfirmed_run [of initialState] t3
  have r3: "statusMessage (fst (processTransaction MINIMUM_BALANCE (unconfirmed 2000000000)
        someKey initialState)) = reported (Error ''Transaction failed'')"
    by blast
  from failures_reported [of "unverifiable 2000000000" MINIMUM_BALANCE someKey initialState
      "Serialize (addSignature (handed someKey 1899990000 ''blockhash'') someKey ''signature'')"
      "Error ''Signature verification failed''"]
    p(4) unverifiable_run [of initialState] t4
  have r4: "statusMessage (fst (processTransaction MINIMUM_BALANCE (unverifiable 2000000000)
        someKey initialState)) = reported (Error ''Signature verification failed'')"
    by blast
  from failures_reported [of "unreachable 2000000000" MINIMUM_BALANCE someKey initialState
      "GetBalance someKey" "Error ''failed to fetch''"]
    p(5) e5 t5
  have r5: "statusMessage (fst (processTransaction MINIMUM_BALANCE (unreachable 2000000000)
        someKey initialState)) = reported (Error ''failed to fetch'')"
    by blast
  show ?thesis
    unfolding r1 r2 r3 r4 r5 q t1 t3 by (simp add: reported_def)
qed

section \<open>The processing flag\<close>

lemma drainConfirm_flag:
  "isProcessing (fst (snd (drainConfirm env amount sg s))) = isProcessing s"
  by (simp add: drainConfirm_def Let_def split: sum.splits option.splits)

lemma drainSend_flag:
  "isProcessing (fst (snd (drainSend env amount stx s))) = isProcessing s"
  by (simp add: drainSend_def Let_def drainConfirm_flag split: sum.splits option.splits)

lemma drainSign_flag:
  "isProcessing (fst (snd (drainSign env sender amount tx s))) = isProcessing s"
  by (simp add: drainSign_def Let_def drainSend_flag split: sum.splits option.splits)

lemma drainBuild_flag:
  "isProcessing (fst (snd (drainBuild env sender amount s))) = isProcessing s"
  by (simp add: drainBuild_def Let_def drainSign_flag split: sum.splits option.splits)

lemma drainBody_flag: "isProcessing (fst (snd (drainBody env publicKey s)))"
  by (simp add: drainBody_def Let_def drainBuild_flag split: sum.splits option.splits)

lemma processTransaction_flag:
  "phantomAtProcess env \<Longrightarrow> \<not> isProcessing (fst (processTransaction m env publicKey s))"
  "\<not> phantomAtProcess env
     \<Longrightarrow> isProcessing (fst (processTransaction m env publicKey s)) = isProcessing s"
  by (cases "tryBody m env publicKey s"; simp add: processTransaction_def Let_def)+

lemma drainWallet_flag:
  "phantomAtProcess env \<Longrightarrow> \<not> isProcessing (fst (drainWallet env publicKey s))"
  "\<not> phantomAtProcess env
     \<Longrightarrow> isProcessing (fst (drainWallet env publicKey s)) = isProcessing s"
  by (cases "drainBody env publicKey s";
      simp add: drainWallet_def Let_def split: option.splits)+

lemma declining_flag:
  "phantomAtProcess (declining b)"
  by (simp add: declining_def approving_def)

text \<open>
  C10. Whenever the routine gets past its provider check, the try block raises
  \<open>isProcessing\<close> and the flag is false again when the routine ends, whatever happened
  in between: success, early return on an unqualified balance, user rejection or any
  thrown error. The only other path, the return on a missing provider, leaves the
  flag as it found it; so a routine entered with the flag down always ends with the
  flag down. This holds for \<open>processTransaction\<close> and for \<open>drainWallet\<close>.
\<close>

theorem isProcessing_reset:
  "(phantomAtProcess env
      \<longrightarrow> isProcessing (fst (snd (tryBody m env publicKey s)))
        \<and> \<not> isProcessing (fst (processTransaction m env publicKey s)))
   \<and> (\<not> phantomAtProcess env
      \<longrightarrow> isProcessing (fst (processTransaction m env publicKey s)) = isProcessing s)
   \<and> (\<not> isProcessing s \<longrightarrow> \<not> isProcessing (fst (processTransaction m env publicKey s)))
   \<and> (phantomAtProcess env
      \<longrightarrow> isProcessing (fst (snd (drainBody env publicKey s)))
        \<and> \<not> isProcessing (fst (drainWallet env publicKey s)))
   \<and> (\<not> phantomAtProcess env
      \<longrightarrow> isProcessing (fst (drainWallet env publicKey s)) = isProcessing s)
   \<and> (\<not> isProcessing s \<longrightarrow> \<not> isProcessing (fst (drainWallet env publicKey s)))"
proof (intro conjI impI)
  assume p: "phantomAtProcess env"
  show "isProcessing (fst (snd (tryBody m env publicKey s)))" by (rule tryBody_quiet(2))
  show "\<not> isProcessing (fst (processTransaction m env publicKey s))"
    using p by (rule processTransaction_flag(1))
  show "isProcessing (fst (snd (drainBody env publicKey s)))" by (rule drainBody_flag)
  show "\<not> isProcessing (fst (drainWallet env publicKey s))"
    using p by (rule drainWallet_flag(1))
next
  assume "\<not> phantomAtProcess env"
  then show "isProcessing (fst (processTransaction m env publicKey s)) = isProcessing s"
    by (rule processTransaction_flag(2))
next
  assume "\<not> phantomAtProcess env"
  then show "isProcessing (fst (drainWallet env publicKey s)) = isProcessing s"
    by (rule drainWallet_flag(2))
next
  assume "\<not> isProcessing s"
  then show "\<not> isProcessing (fst (processTransaction m env publicKey s))"
    using processTransaction_flag [of env m publicKey s] by (cases "phantomAtProcess env") simp_all
next
  assume "\<not> isProcessing s"
  then show "\<not> isProcessing (fst (drainWallet env publicKey s))"
    using drainWallet_flag [of env publicKey s] by (cases "phantomAtProcess env") simp_all
qed

theorem isProcessing_reset_witness:
  "phantomAtProcess (declining 2000000000)
   \<and> fst (tryBody 0 (declining 2000000000) someKey initialState)
       = Some (Error ''User rejected the request.'')
   \<and> isProcessing (fst (snd (tryBody 0 (declining 2000000000) someKey initialState)))
   \<and> \<not> isProcessing (fst (processTransaction 0 (declining 2000000000) someKey initialState))
   \<and> \<not> isProcessing initialState
   \<and> \<not> isProcessing (fst (drainWallet (declining 2000000000) someKey initialState))"
proof -
  have h: "phantomAtProcess (declining 2000000000)" by (rule declining_flag)
  have i: "\<not> isProcessing initialState" by (simp add: initialState_def)
  from isProcessing_reset [of "declining 2000000000" 0 someKey initialState] h i
  show ?thesis by (simp add: declining_body)
qed

section \<open>What an approved account has broadcast\<close>

lemma confirmStep_sent: "filter isSend (snd (snd (confirmStep env amount sg s))) = []"
  by (simp add: confirmStep_def Let_def split: sum.splits)

lemma sendStep_sent:
  "filter isSend (snd (snd (sendStep env amount stx s))) =
     (case serialize env stx of Some t \<Rightarrow> [] | None \<Rightarrow> [SendRawTransaction stx])"
  by (simp add: sendStep_def Let_def confirmStep_sent split: sum.splits option.splits)

lemma signStep_sent:
  "filter isSend (snd (snd (signStep env sender amount tx s))) =
     (case signedBy env sender tx of
        Inl t \<Rightarrow> []
      | Inr stx \<Rightarrow> (case serialize env stx of Some t \<Rightarrow> [] | None \<Rightarrow> [SendRawTransaction stx]))"
  by (simp add: signStep_def Let_def signedBy_def sendStep_sent split: sum.splits)

lemma blockhashStep_sent:
  "filter isSend (snd (snd (blockhashStep env sender amount tx s))) =
     (case getLatestBlockhash env of
        Inl t \<Rightarrow> []
      | Inr blockhash \<Rightarrow>
          (case signedBy env sender
                  (tx\<lparr>recentBlockhash := Some blockhash, feePayer := Some sender\<rparr>) of
             Inl t \<Rightarrow> []
           | Inr stx \<Rightarrow>
               (case serialize env stx of Some t \<Rightarrow> [] | None \<Rightarrow> [SendRawTransaction stx])))"
  by (simp add: blockhashStep_def signStep_sent split: sum.splits)

lemma buildStep_sent:
  "filter isSend (snd (snd (buildStep env sender amount s))) =
     (case getLatestBlockhash env of
        Inl t \<Rightarrow> []
      | Inr blockhash \<Rightarrow>
          (case signedBy env sender (handed sender amount blockhash) of
             Inl t \<Rightarrow> []
           | Inr stx \<Rightarrow>
               (case serialize env stx of Some t \<Rightarrow> [] | None \<Rightarrow> [SendRawTransaction stx])))"
  unfolding buildStep_def Let_def handed_def transferOf_def by (simp add: blockhashStep_sent)

lemma feeStep_sent:
  "filter isSend (snd (snd (feeStep env sender balance s))) =
     (case getRecentPrioritizationFees env of
        Inl t \<Rightarrow> []
      | Inr fs \<Rightarrow>
          if amountToSend balance (estimatedFees fs) \<le> 0 then []
          else
            (case getLatestBlockhash env of
               Inl t \<Rightarrow> []
             | Inr blockhash \<Rightarrow>
                 (case signedBy env sender
                         (handed sender (amountToSend balance (estimatedFees fs)) blockhash) of
                    Inl t \<Rightarrow> []
                  | Inr stx \<Rightarrow>
                      (case serialize env stx of
                         Some t \<Rightarrow> []
                       | None \<Rightarrow> [SendRawTransaction stx]))))"
  by (simp add: feeStep_def Let_def buildStep_sent split: sum.splits)

lemma tryBody_sent:
  assumes "newPublicKey env publicKey = None" and "newPublicKey env RECEIVER_ADDRESS = None"
  shows "filter isSend (snd (snd (tryBody m env publicKey s))) =
           (case submission m env publicKey of
              None \<Rightarrow> []
            | Some tx \<Rightarrow> [SendRawTransaction tx])"
    and "GetBalance publicKey \<in> set (snd (snd (tryBody m env publicKey s)))"
  using assms
  by (simp_all add: tryBody_def Let_def feeStep_sent submission_def
      split: sum.splits option.splits)

lemma processTransaction_sent:
  assumes "phantomAtProcess env"
    and "newPublicKey env publicKey = None" and "newPublicKey env RECEIVER_ADDRESS = None"
  shows "filter isSend (snd (processTransaction m env publicKey s)) =
           (case submission m env publicKey of
              None \<Rightarrow> []
            | Some tx \<Rightarrow> [SendRawTransaction tx])"
    and "GetBalance publicKey \<in> set (snd (processTransaction m env publicKey s))"
  using assms(1) tryBody_sent [OF assms(2,3), of m s]
  by (cases "tryBody m env publicKey s"; simp add: processTransaction_def Let_def)+

lemma submission_signed:
  assumes "submission m env publicKey = Some tx"
  shows "\<exists>amount blockhash. 0 < amount
           \<and> signedBy env publicKey (handed publicKey amount blockhash) = Inr tx
           \<and> serialize env tx = None"
  using assms
  by (fastforce simp add: submission_def Let_def not_le
      split: sum.splits if_splits option.splits)

lemma toNumber_zero: "toNumber 0 = 0"
  by (simp add: toNumber_def fl_def)

lemma approving_submission:
  "submission MINIMUM_BALANCE (approving 2000000000) someKey =
     Some (addSignature (handed someKey 1899990000 ''blockhash'') someKey ''signature'')"
  by (simp add: submission_def approving_def signedBy_def Let_def toNumber_2sol
      minBalance_shipped estimatedFees_Nil amount_2sol)

lemma empty_account_run:
  "snd (connectToWallet MINIMUM_BALANCE (approving 0) initialState)
     = [Connect, Invoked ProcessTransaction someKey, GetBalance someKey]"
  by (simp add: connectToWallet_def processTransaction_def tryBody_def approving_def Let_def
      toNumber_zero)

lemma declined_run:
  "filter isSend (snd (connectToWallet MINIMUM_BALANCE (declining 2000000000) initialState)) = []"
  by (simp add: connectToWallet_def processTransaction_def tryBody_def feeStep_def buildStep_def
      blockhashStep_def signStep_def declining_def approving_def Let_def prepend_def
      estimatedFees_Nil toNumber_2sol amount_2sol minBalance_shipped)

lemma unverifiable_sent:
  "filter isSend (snd (connectToWallet MINIMUM_BALANCE (unverifiable 2000000000) initialState)) = []"
  by (simp add: connectToWallet_def processTransaction_def tryBody_def feeStep_def buildStep_def
      blockhashStep_def signStep_def sendStep_def unverifiable_def approving_def Let_def
      prepend_def estimatedFees_Nil toNumber_2sol amount_2sol minBalance_shipped)

text \<open>
  C3, as the code has it. For every account whose connection is approved (the provider
  still present when the routine starts, both keys accepted by \<^verbatim>\<open>PublicKey\<close>) the run
  queries that account's balance. It makes the broadcast call exactly when the balance
  is positive and above the minimum, the fee query answers, the computed amount is
  positive, a blockhash is obtained, the wallet answers the signature request and its
  answer serialises. What it broadcasts is the wallet's answer to the transaction it
  handed over, a single transfer to the fixed destination (in the
  \<^verbatim>\<open>signAllTransactions\<close> fallback, that transaction with the signature added); so
  the broadcast is that single transfer whenever the wallet hands back the instructions
  it was handed. In every other case nothing is broadcast.
\<close>

theorem approved_account_transfer:
  assumes "phantomAtConnect env" and "connect env = Inr (Some publicKey)"
    and "phantomAtProcess env"
    and "newPublicKey env publicKey = None" and "newPublicKey env RECEIVER_ADDRESS = None"
  shows "GetBalance publicKey \<in> set (snd (connectToWallet m env a))
         \<and> filter isSend (snd (connectToWallet m env a))
             = (case submission m env publicKey of
                  None \<Rightarrow> []
                | Some tx \<Rightarrow> [SendRawTransaction tx])
         \<and> (\<forall>tx. submission m env publicKey = Some tx
               \<longrightarrow> (\<exists>amount blockhash. 0 < amount
                     \<and> instructions (handed publicKey amount blockhash)
                         = [SystemTransfer publicKey RECEIVER_ADDRESS amount]
                     \<and> signedBy env publicKey (handed publicKey amount blockhash) = Inr tx
                     \<and> serialize env tx = None))
         \<and> (faithfulWallet env
               \<longrightarrow> (\<forall>tx. submission m env publicKey = Some tx
                     \<longrightarrow> singleTransfer tx \<and> (\<forall>ix \<in> set (instructions tx). paysReceiver ix)))"
proof (intro conjI allI impI)
  have run: "snd (connectToWallet m env a)
      = Connect # snd (processTransaction m env publicKey (connected publicKey a))"
    using assms(1,2) by (simp add: connectToWallet_connected)
  show "GetBalance publicKey \<in> set (snd (connectToWallet m env a))"
    using processTransaction_sent(2) [OF assms(3,4,5)] by (simp add: run)
  show "filter isSend (snd (connectToWallet m env a))
             = (case submission m env publicKey of
                  None \<Rightarrow> []
                | Some tx \<Rightarrow> [SendRawTransaction tx])"
    using processTransaction_sent(1) [OF assms(3,4,5)] by (simp add: run)
next
  fix tx
  assume "submission m env publicKey = Some tx"
  then show "\<exists>amount blockhash. 0 < amount
                     \<and> instructions (handed publicKey amount blockhash)
                         = [SystemTransfer publicKey RECEIVER_ADDRESS amount]
                     \<and> signedBy env publicKey (handed publicKey amount blockhash) = Inr tx
                     \<and> serialize env tx = None"
    using submission_signed [of m env publicKey tx] by (simp add: handed_instructions)
next
  fix tx
  assume f: "faithfulWallet env" and "submission m env publicKey = Some tx"
  then obtain amount blockhash
    where "signedBy env publicKey (handed publicKey amount blockhash) = Inr tx"
    using submission_signed by blast
  with f have "instructions tx = [SystemTransfer publicKey RECEIVER_ADDRESS amount]"
    using signedBy_instructions [of env publicKey "handed publicKey amount blockhash" tx]
    by (simp add: handed_instructions)
  then show "singleTransfer tx" and "\<forall>ix \<in> set (instructions tx). paysReceiver ix"
    by simp_all
qed

theorem approved_account_transfer_witness:
  "phantomAtConnect (approving 2000000000)
   \<and> connect (approving 2000000000) = Inr (Some someKey)
   \<and> GetBalance someKey
       \<in> set (snd (connectToWallet MINIMUM_BALANCE (approving 2000000000) initialState))
   \<and> filter isSend (snd (connectToWallet MINIMUM_BALANCE (approving 2000000000) initialState))
       = [SendRawTransaction
            (addSignature (handed someKey 1899990000 ''blockhash'') someKey ''signature'')]
   \<and> singleTransfer (addSignature (handed someKey 1899990000 ''blockhash'') someKey ''signature'')
   \<and> list_all paysReceiver
        (instructions
          (addSignature (handed someKey 1899990000 ''blockhash'') someKey ''signature''))"
proof -
  have h: "phantomAtConnect (approving 2000000000)"
    "connect (approving 2000000000) = Inr (Some someKey)"
    "phantomAtProcess (approving 2000000000)"
    "newPublicKey (approving 2000000000) someKey = None"
    "newPublicKey (approving 2000000000) RECEIVER_ADDRESS = None"
    by (simp_all add: approving_def)
  have f: "faithfulWallet (approving 2000000000)" by (rule approving_faithful)
  from approved_account_transfer [OF h, of MINIMUM_BALANCE initialState] h(1,2) f
  show ?thesis by (simp add: approving_submission list_all_iff)
qed

text \<open>
  C3 as stated fails: an approved account with an empty balance has its balance queried
  and nothing broadcast, and so has a funded account whose owner declines the signature
  request, or whose wallet returns a transaction that does not serialise.
\<close>

theorem approved_account_transfer_counterexample:
  "phantomAtConnect (approving 0)
   \<and> connect (approving 0) = Inr (Some someKey)
   \<and> GetBalance someKey \<in> set (snd (connectToWallet MINIMUM_BALANCE (approving 0) initialState))
   \<and> filter isSend (snd (connectToWallet MINIMUM_BALANCE (approving 0) initialState)) = []
   \<and> connect (declining 2000000000) = Inr (Some someKey)
   \<and> filter isSend (snd (connectToWallet MINIMUM_BALANCE (declining 2000000000) initialState)) = []
   \<and> connect (unverifiable 2000000000) = Inr (Some someKey)
   \<and> filter isSend (snd (connectToWallet MINIMUM_BALANCE (unverifiable 2000000000) initialState))
       = []"
  by (simp add: empty_account_run declined_run unverifiable_sent)
    (simp add: declining_def unverifiable_def approving_def)

end
